theory Spec2Isabelle
  imports Complex_Main
begin

section \<open>Python values, exceptions and the builtins the program uses\<close>

text \<open>
  The program is dynamically typed: every value it reads comes out of a JSON document
  (\<open>response.json()\<close>, \<open>request.json\<close>) and every value it returns is a dict literal.
  Values are modelled by one datatype. A dict is an association list in insertion order
  (\<open>max\<close> over \<open>items()\<close> depends on that order). An \<open>int\<close> is unbounded, a
  \<open>float\<close> is the real number it denotes: only comparisons with integer constants are
  modelled on floats, and Python compares an int with a float by value. Non-finite floats
  (\<open>nan\<close>, \<open>inf\<close>), which JSON proper cannot express, are not represented. A string is a
  list of characters with code points below 256.
\<close>

datatype pyval =
    PNone
  | PBool bool
  | PInt int
  | PFloat real
  | PStr string
  | PList "pyval list"
  | PDict "(pyval \<times> pyval) list"

text \<open>
  An exception is its class and its message; \<open>str(e)\<close> is the message. The messages
  of the exceptions the interpreter raises are those of CPython 3.10 (later versions word
  some of them differently, and raise \<open>KeyError\<close> for a slice of a dict); the program
  only copies them into its error records. \<open>RequestError\<close> stands for
  whatever an HTTP or geocoding client raises (connection failure, timeout, bad status,
  a body that is not JSON).
\<close>

datatype exn_kind = KeyError | IndexError | TypeError | AttributeError | ValueError | RequestError

datatype exn = Exn exn_kind string

fun str_exn :: "exn \<Rightarrow> string" where
  "str_exn (Exn k m) = m"

text \<open>
  A computation that may raise returns \<open>Inl e\<close> for the exception or \<open>Inr v\<close> for its
  value. \<open>bind_exn\<close> is sequencing (an exception skips the rest), \<open>try_except\<close> is
  \<open>try: ... except Exception as e: ...\<close>.
\<close>

definition bind_exn :: "exn + 'a \<Rightarrow> ('a \<Rightarrow> exn + 'b) \<Rightarrow> exn + 'b" where
  "bind_exn m f = (case m of Inl e \<Rightarrow> Inl e | Inr x \<Rightarrow> f x)"

definition try_except :: "exn + 'a \<Rightarrow> (exn \<Rightarrow> exn + 'a) \<Rightarrow> exn + 'a" where
  "try_except body handler = (case body of Inl e \<Rightarrow> handler e | Inr x \<Rightarrow> Inr x)"

fun type_name :: "pyval \<Rightarrow> string" where
  "type_name PNone = ''NoneType''"
| "type_name (PBool b) = ''bool''"
| "type_name (PInt n) = ''int''"
| "type_name (PFloat r) = ''float''"
| "type_name (PStr s) = ''str''"
| "type_name (PList xs) = ''list''"
| "type_name (PDict d) = ''dict''"

text \<open>Truth value testing: \<open>None\<close>, \<open>False\<close>, zero and empty containers are false.\<close>

fun truthy :: "pyval \<Rightarrow> bool" where
  "truthy PNone = False"
| "truthy (PBool b) = b"
| "truthy (PInt n) = (n \<noteq> 0)"
| "truthy (PFloat r) = (r \<noteq> 0)"
| "truthy (PStr s) = (s \<noteq> [])"
| "truthy (PList xs) = (xs \<noteq> [])"
| "truthy (PDict d) = (d \<noteq> [])"

text \<open>
  The number a value denotes: \<open>bool\<close> is a subclass of \<open>int\<close> (\<open>True\<close> is 1), so
  \<open>isinstance(v, (int, float))\<close> holds exactly where \<open>num_of v\<close> is defined.
\<close>

fun num_of :: "pyval \<Rightarrow> real option" where
  "num_of (PBool b) = Some (if b then 1 else 0)"
| "num_of (PInt n) = Some (of_int n)"
| "num_of (PFloat r) = Some r"
| "num_of v = None"

definition isinstance_int_float :: "pyval \<Rightarrow> bool" where
  "isinstance_int_float v = (num_of v \<noteq> None)"

fun isinstance_dict :: "pyval \<Rightarrow> bool" where
  "isinstance_dict (PDict d) = True"
| "isinstance_dict v = False"

text \<open>\<open>repr\<close> of a string without characters to escape: the string in single quotes.\<close>

definition quoted :: "string \<Rightarrow> string" where
  "quoted s = [CHR 0x27] @ s @ [CHR 0x27]"

text \<open>\<open>v < n\<close> and \<open>v > n\<close> for an integer constant \<open>n\<close>: a \<open>TypeError\<close> unless \<open>v\<close> is a number.\<close>

definition py_lt :: "pyval \<Rightarrow> int \<Rightarrow> exn + bool" where
  "py_lt v n = (case num_of v of
      Some x \<Rightarrow> Inr (x < of_int n)
    | None \<Rightarrow> Inl (Exn TypeError (quoted ''<'' @ '' not supported between instances of ''
               @ quoted (type_name v) @ '' and '' @ quoted ''int'')))"

definition py_gt :: "pyval \<Rightarrow> int \<Rightarrow> exn + bool" where
  "py_gt v n = (case num_of v of
      Some x \<Rightarrow> Inr (x > of_int n)
    | None \<Rightarrow> Inl (Exn TypeError (quoted ''>'' @ '' not supported between instances of ''
               @ quoted (type_name v) @ '' and '' @ quoted ''int'')))"

text \<open>
  Dict lookup compares keys as Python does: numbers by value (\<open>True\<close>, \<open>1\<close> and \<open>1.0\<close>
  are one key), everything else by type and content. Only \<open>None\<close>, numbers and strings
  are hashable; a list or a dict as a key raises \<open>TypeError\<close>.
\<close>

definition key_eq :: "pyval \<Rightarrow> pyval \<Rightarrow> bool" where
  "key_eq a b = (case (num_of a, num_of b) of
      (Some x, Some y) \<Rightarrow> x = y
    | (None, None) \<Rightarrow> a = b
    | _ \<Rightarrow> False)"

fun hashable :: "pyval \<Rightarrow> bool" where
  "hashable (PList xs) = False"
| "hashable (PDict d) = False"
| "hashable v = True"

fun dict_find :: "(pyval \<times> 'v) list \<Rightarrow> pyval \<Rightarrow> 'v option" where
  "dict_find [] k = None"
| "dict_find ((k', v) # d) k = (if key_eq k' k then Some v else dict_find d k)"

text \<open>\<open>v[key]\<close> for a string literal \<open>key\<close>.\<close>

fun py_getitem :: "pyval \<Rightarrow> string \<Rightarrow> exn + pyval" where
  "py_getitem (PDict d) k = (case dict_find d (PStr k) of
      Some x \<Rightarrow> Inr x
    | None \<Rightarrow> Inl (Exn KeyError (quoted k)))"
| "py_getitem (PStr s) k = Inl (Exn TypeError ''string indices must be integers'')"
| "py_getitem (PList xs) k = Inl (Exn TypeError ''list indices must be integers or slices, not str'')"
| "py_getitem v k = Inl (Exn TypeError (quoted (type_name v) @ '' object is not subscriptable''))"

text \<open>\<open>v[0]\<close>.\<close>

fun py_getitem0 :: "pyval \<Rightarrow> exn + pyval" where
  "py_getitem0 (PList xs) = (case xs of
      [] \<Rightarrow> Inl (Exn IndexError ''list index out of range'')
    | x # _ \<Rightarrow> Inr x)"
| "py_getitem0 (PStr s) = (case s of
      [] \<Rightarrow> Inl (Exn IndexError ''string index out of range'')
    | c # _ \<Rightarrow> Inr (PStr [c]))"
| "py_getitem0 (PDict d) = (case dict_find d (PInt 0) of
      Some x \<Rightarrow> Inr x
    | None \<Rightarrow> Inl (Exn KeyError ''0''))"
| "py_getitem0 v = Inl (Exn TypeError (quoted (type_name v) @ '' object is not subscriptable''))"

text \<open>\<open>v[a:b]\<close> for \<open>0 \<le> a \<le> b\<close>: slicing never raises on a list or a string.\<close>

fun py_slice :: "pyval \<Rightarrow> nat \<Rightarrow> nat \<Rightarrow> exn + pyval" where
  "py_slice (PList xs) a b = Inr (PList (take (b - a) (drop a xs)))"
| "py_slice (PStr s) a b = Inr (PStr (take (b - a) (drop a s)))"
| "py_slice (PDict d) a b = Inl (Exn TypeError (''unhashable type: '' @ quoted ''slice''))"
| "py_slice v a b = Inl (Exn TypeError (quoted (type_name v) @ '' object is not subscriptable''))"

text \<open>Iteration (\<open>for x in v\<close>): the items of a list, the characters of a string, the keys of a dict.\<close>

fun py_iter :: "pyval \<Rightarrow> exn + pyval list" where
  "py_iter (PList xs) = Inr xs"
| "py_iter (PStr s) = Inr (map (\<lambda>c. PStr [c]) s)"
| "py_iter (PDict d) = Inr (map fst d)"
| "py_iter v = Inl (Exn TypeError (quoted (type_name v) @ '' object is not iterable''))"

text \<open>\<open>len(v)\<close>.\<close>

fun py_len :: "pyval \<Rightarrow> exn + nat" where
  "py_len (PList xs) = Inr (length xs)"
| "py_len (PStr s) = Inr (length s)"
| "py_len (PDict d) = Inr (length d)"
| "py_len v = Inl (Exn TypeError (''object of type '' @ quoted (type_name v) @ '' has no len()''))"

text \<open>\<open>v.get(key)\<close> and \<open>v.get(key, default)\<close>: a method of dicts only.\<close>

fun py_get :: "pyval \<Rightarrow> string \<Rightarrow> pyval \<Rightarrow> exn + pyval" where
  "py_get (PDict d) k dflt = Inr (case dict_find d (PStr k) of Some x \<Rightarrow> x | None \<Rightarrow> dflt)"
| "py_get v k dflt = Inl (Exn AttributeError
      (quoted (type_name v) @ '' object has no attribute '' @ quoted ''get''))"

subsection \<open>Strings\<close>

text \<open>
  \<open>str.lower\<close>, \<open>str.isdigit\<close> and the whitespace of \<open>str.split()\<close>, for code points
  below 256. The upper-case letters are A to Z and U+00C0 to U+00DE without the
  multiplication sign U+00D7; the lower-case letter is 32 higher, that is bit 5 set.
  \<open>isdigit\<close> holds of 0 to 9 and of the superscripts U+00B2, U+00B3 and U+00B9, which
  \<open>int\<close> does not accept.
\<close>

definition is_upper :: "char \<Rightarrow> bool" where
  "is_upper c = (let n = (of_char c :: nat) in
     (65 \<le> n \<and> n \<le> 90) \<or> (192 \<le> n \<and> n \<le> 222 \<and> n \<noteq> 215))"

definition lower_char :: "char \<Rightarrow> char" where
  "lower_char c = (if is_upper c
     then (case c of Char b0 b1 b2 b3 b4 b5 b6 b7 \<Rightarrow> Char b0 b1 b2 b3 b4 True b6 b7)
     else c)"

definition lower :: "string \<Rightarrow> string" where
  "lower s = map lower_char s"

definition is_ascii_digit :: "char \<Rightarrow> bool" where
  "is_ascii_digit c = (let n = (of_char c :: nat) in 48 \<le> n \<and> n \<le> 57)"

definition isdigit :: "char \<Rightarrow> bool" where
  "isdigit c = (is_ascii_digit c \<or> (of_char c :: nat) \<in> {178, 179, 185})"

definition isspace :: "char \<Rightarrow> bool" where
  "isspace c = (let n = (of_char c :: nat) in
     (9 \<le> n \<and> n \<le> 13) \<or> (28 \<le> n \<and> n \<le> 32) \<or> n = 133 \<or> n = 160)"

text \<open>\<open>s.split()\<close>: the maximal runs of characters that are not whitespace.\<close>

fun split_ws :: "string \<Rightarrow> string \<Rightarrow> string list" where
  "split_ws cur [] = (if cur = [] then [] else [cur])"
| "split_ws cur (c # cs) =
     (if isspace c then (if cur = [] then split_ws [] cs else cur # split_ws [] cs)
      else split_ws (cur @ [c]) cs)"

definition py_split :: "string \<Rightarrow> string list" where
  "py_split s = split_ws [] s"

text \<open>\<open>sub in s\<close> on strings: \<open>sub\<close> occurs in \<open>s\<close> as a contiguous run.\<close>

fun starts_with :: "string \<Rightarrow> string \<Rightarrow> bool" where
  "starts_with s [] = True"
| "starts_with [] (p # ps) = False"
| "starts_with (c # cs) (p # ps) = (c = p \<and> starts_with cs ps)"

fun str_contains :: "string \<Rightarrow> string \<Rightarrow> bool" where
  "str_contains [] sub = (sub = [])"
| "str_contains (c # cs) sub = (starts_with (c # cs) sub \<or> str_contains cs sub)"

text \<open>
  \<open>int(s)\<close> on a string of \<open>isdigit\<close> characters: the decimal value when the string is
  not empty and every character is one of 0 to 9, else \<open>ValueError\<close>. (The length
  limit of recent interpreters, 4300 digits by default, is not modelled.)
\<close>

definition digit_val :: "char \<Rightarrow> int" where
  "digit_val c = int (of_char c) - 48"

definition py_int :: "string \<Rightarrow> exn + int" where
  "py_int s = (if s \<noteq> [] \<and> list_all is_ascii_digit s
     then Inr (foldl (\<lambda>acc c. 10 * acc + digit_val c) 0 s)
     else Inl (Exn ValueError (''invalid literal for int() with base 10: '' @ quoted s)))"

section \<open>Terrain classification (\<open>_classify_terrain\<close>)\<close>

definition classify_terrain :: "pyval \<Rightarrow> exn + string" where
  "classify_terrain elevation_range =
     bind_exn (py_lt elevation_range 10) (\<lambda>lt10.
       if lt10 then Inr ''Flat terrain''
       else bind_exn (py_lt elevation_range 50) (\<lambda>lt50.
         if lt50 then Inr ''Gently rolling terrain''
         else bind_exn (py_lt elevation_range 100) (\<lambda>lt100.
           if lt100 then Inr ''Moderately hilly terrain''
           else Inr ''Steep/mountainous terrain'')))"


section \<open>Weather normalisation (\<open>_get_weather_data\<close>, lines 71 to 136)\<close>

text \<open>\<open>v.lower()\<close>: a method of strings only.\<close>

fun py_lower :: "pyval \<Rightarrow> exn + string" where
  "py_lower (PStr s) = Inr (lower s)"
| "py_lower v = Inl (Exn AttributeError
      (quoted (type_name v) @ '' object has no attribute '' @ quoted ''lower''))"

text \<open>\<open>key in v\<close> for a string literal \<open>key\<close>.\<close>

fun py_in :: "string \<Rightarrow> pyval \<Rightarrow> exn + bool" where
  "py_in k (PDict d) = Inr (dict_find d (PStr k) \<noteq> None)"
| "py_in k (PList xs) = Inr (PStr k \<in> set xs)"
| "py_in k (PStr s) = Inr (str_contains s k)"
| "py_in k v = Inl (Exn TypeError (''argument of type '' @ quoted (type_name v) @ '' is not iterable''))"

text \<open>\<open>xs[i]\<close> on the list \<open>normalized_periods\<close> the loop builds.\<close>

definition list_index :: "pyval list \<Rightarrow> nat \<Rightarrow> exn + pyval" where
  "list_index xs i = (if i < length xs then Inr (xs ! i) else Inl (Exn IndexError ''list index out of range''))"

text \<open>
  Lines 80 to 97: the normalised name of period \<open>i\<close>, from its position, its upstream
  name (period 0 only) and the names given so far.
\<close>

definition normalized_name :: "nat \<Rightarrow> pyval \<Rightarrow> pyval list \<Rightarrow> exn + string" where
  "normalized_name i original_name normalized_periods =
     (if i = 0 then
        bind_exn (py_lower original_name) (\<lambda>lowered.
          if str_contains lowered ''night'' then Inr ''Tonight'' else Inr ''Today'')
      else if i = 1 then
        bind_exn (list_index normalized_periods 0) (\<lambda>first.
        bind_exn (py_getitem first ''name'') (\<lambda>first_name.
          if first_name = PStr ''Today'' then Inr ''Tonight'' else Inr ''Tomorrow''))
      else
        bind_exn (list_index normalized_periods 1) (\<lambda>second.
        bind_exn (py_getitem second ''name'') (\<lambda>second_name.
          if second_name = PStr ''Tonight'' then Inr ''Tomorrow'' else Inr ''Tomorrow Night'')))"

text \<open>
  Lines 100 to 105: the humidity the period itself carries, \<open>None\<close> when it carries
  none. The field counts only when it is true in Python's sense.
\<close>

definition own_humidity :: "pyval \<Rightarrow> exn + pyval" where
  "own_humidity p =
     bind_exn (py_in ''relativeHumidity'' p) (\<lambda>present.
       if \<not> present then Inr PNone
       else bind_exn (py_getitem p ''relativeHumidity'') (\<lambda>rh.
         if \<not> truthy rh then Inr PNone
         else if isinstance_dict rh then py_get rh ''value'' PNone
         else Inr rh))"

text \<open>
  Lines 111 to 119: the loop over the slice of the hourly forecast, with its \<open>break\<close>
  at the first humidity that is not \<open>None\<close>.
\<close>

fun scan_hourly :: "pyval list \<Rightarrow> pyval \<Rightarrow> exn + pyval" where
  "scan_hourly [] humidity = Inr humidity"
| "scan_hourly (hourly # rest) humidity =
     bind_exn (py_get hourly ''relativeHumidity'' PNone) (\<lambda>found.
       if truthy found then
         bind_exn (py_getitem hourly ''relativeHumidity'') (\<lambda>humidity_data.
         bind_exn (if isinstance_dict humidity_data then py_get humidity_data ''value'' PNone
                   else Inr humidity_data) (\<lambda>humidity'.
           if humidity' \<noteq> PNone then Inr humidity' else scan_hourly rest humidity'))
       else scan_hourly rest humidity)"

text \<open>Lines 108 to 119: the hourly forecast is consulted only when the period gave \<open>None\<close>.\<close>

definition backfill_humidity :: "nat \<Rightarrow> pyval \<Rightarrow> pyval \<Rightarrow> exn + pyval" where
  "backfill_humidity i hourly_periods humidity =
     (if humidity = PNone \<and> truthy hourly_periods then
        (let start_idx = i * 4 in
         bind_exn (py_slice hourly_periods start_idx (start_idx + 4)) (\<lambda>window.
         bind_exn (py_iter window) (\<lambda>hourlies.
           scan_hourly hourlies humidity)))
      else Inr humidity)"

text \<open>Lines 77 to 131: one iteration of the loop, the dict appended for period \<open>i\<close>.\<close>

definition normalize_period :: "pyval \<Rightarrow> nat \<Rightarrow> pyval \<Rightarrow> pyval list \<Rightarrow> exn + pyval" where
  "normalize_period hourly_periods i p normalized_periods =
     bind_exn (py_getitem p ''name'') (\<lambda>original_name.
     bind_exn (normalized_name i original_name normalized_periods) (\<lambda>name.
     bind_exn (own_humidity p) (\<lambda>own.
     bind_exn (backfill_humidity i hourly_periods own) (\<lambda>humidity.
     bind_exn (py_getitem p ''temperature'') (\<lambda>temperature.
     bind_exn (py_getitem p ''temperatureUnit'') (\<lambda>temperature_unit.
     bind_exn (py_getitem p ''windSpeed'') (\<lambda>wind_speed.
     bind_exn (py_getitem p ''windDirection'') (\<lambda>wind_direction.
     bind_exn (py_getitem p ''shortForecast'') (\<lambda>short_forecast.
     bind_exn (py_getitem p ''detailedForecast'') (\<lambda>detailed_forecast.
       Inr (PDict [
         (PStr ''name'', PStr name),
         (PStr ''original_name'', original_name),
         (PStr ''temperature'', temperature),
         (PStr ''temperature_unit'', temperature_unit),
         (PStr ''wind_speed'', wind_speed),
         (PStr ''wind_direction'', wind_direction),
         (PStr ''humidity'', if humidity \<noteq> PNone then humidity else PStr ''N/A''),
         (PStr ''short_forecast'', short_forecast),
         (PStr ''detailed_forecast'', detailed_forecast)])))))))))))"

text \<open>Lines 75 to 131: \<open>for i, p in enumerate(periods)\<close>, appending to \<open>normalized_periods\<close>.\<close>

fun normalize_loop :: "pyval \<Rightarrow> nat \<Rightarrow> pyval list \<Rightarrow> pyval list \<Rightarrow> exn + pyval list" where
  "normalize_loop hourly_periods i [] normalized_periods = Inr normalized_periods"
| "normalize_loop hourly_periods i (p # ps) normalized_periods =
     bind_exn (normalize_period hourly_periods i p normalized_periods) (\<lambda>entry.
       normalize_loop hourly_periods (Suc i) ps (normalized_periods @ [entry]))"

text \<open>
  Line 71: \<open>forecast_data['properties']['periods'][:3]\<close>, as the loop of line 76
  iterates it. A slice is a list or a string, so iterating it does not raise, and
  nothing depends on its place in the order of evaluation.
\<close>

definition retained_periods :: "pyval \<Rightarrow> exn + pyval list" where
  "retained_periods forecast_data =
     bind_exn (py_getitem forecast_data ''properties'') (\<lambda>properties.
     bind_exn (py_getitem properties ''periods'') (\<lambda>all_periods.
     bind_exn (py_slice all_periods 0 3) (\<lambda>periods.
       py_iter periods)))"

text \<open>Lines 71 to 136: the report, from the two forecast documents.\<close>

definition weather_report :: "pyval \<Rightarrow> pyval \<Rightarrow> exn + pyval" where
  "weather_report forecast_data hourly_data =
     bind_exn (retained_periods forecast_data) (\<lambda>periods.
     bind_exn (py_getitem hourly_data ''properties'') (\<lambda>hourly_properties.
     bind_exn (py_getitem hourly_properties ''periods'') (\<lambda>hourly_periods.
     bind_exn (normalize_loop hourly_periods 0 periods []) (\<lambda>normalized_periods.
       Inr (PDict [
         (PStr ''source'', PStr ''National Weather Service (NOAA)''),
         (PStr ''forecast'', PList normalized_periods)])))))"

section \<open>Burn assessment (\<open>_assess_burn_conditions\<close>)\<close>

text \<open>\<open>v.split()\<close>: a method of strings only.\<close>

fun py_str_split :: "pyval \<Rightarrow> exn + string list" where
  "py_str_split (PStr s) = Inr (py_split s)"
| "py_str_split v = Inl (Exn AttributeError
      (quoted (type_name v) @ '' object has no attribute '' @ quoted ''split''))"

text \<open>\<open>tokens[0]\<close> on the list \<open>split\<close> returned.\<close>

fun first_token :: "string list \<Rightarrow> exn + string" where
  "first_token [] = Inl (Exn IndexError ''list index out of range'')"
| "first_token (t # ts) = Inr t"

text \<open>Line 290: \<open>int(''.join(filter(str.isdigit, wind.split()[0])))\<close>.\<close>

definition parse_wind :: "pyval \<Rightarrow> exn + int" where
  "parse_wind wind =
     bind_exn (py_str_split wind) (\<lambda>tokens.
     bind_exn (first_token tokens) (\<lambda>token.
       py_int (filter isdigit token)))"

text \<open>
  Line 294: \<open>isinstance(humidity, (int, float)) and humidity < 30\<close>. The comparison is
  evaluated only on a number.
\<close>

definition humidity_low :: "pyval \<Rightarrow> exn + bool" where
  "humidity_low humidity =
     (if isinstance_int_float humidity then py_lt humidity 30 else Inr False)"

text \<open>Lines 282 to 302: the body of the \<open>try\<close> block.\<close>

definition burn_concerns :: "pyval \<Rightarrow> exn + pyval" where
  "burn_concerns weather_data =
     bind_exn (py_getitem weather_data ''forecast'') (\<lambda>forecast.
     bind_exn (py_getitem0 forecast) (\<lambda>current.
     bind_exn (py_getitem current ''temperature'') (\<lambda>temp.
     bind_exn (py_get current ''humidity'' (PStr ''N/A'')) (\<lambda>humidity.
     bind_exn (py_getitem current ''wind_speed'') (\<lambda>wind.
     bind_exn (parse_wind wind) (\<lambda>wind_value.
     bind_exn (humidity_low humidity) (\<lambda>dry.
     bind_exn (py_gt temp 85) (\<lambda>hot.
       (let concerns =
              (if wind_value > 15 then [PStr ''High wind speeds - increased fire spread risk''] else [])
            @ (if dry then [PStr ''Low humidity - increased fire intensity risk''] else [])
            @ (if hot then [PStr ''High temperature - increased fire behavior risk''] else [])
        in Inr (PDict [
             (PStr ''concerns'',
                PList (if concerns \<noteq> [] then concerns else [PStr ''Conditions appear moderate''])),
             (PStr ''recommendation'',
                PStr ''Consult with fire management professionals before proceeding'')]))))))))))"

text \<open>Lines 276 to 304. The membership test of line 278 stands outside the \<open>try\<close> block.\<close>

definition assess_burn_conditions :: "pyval \<Rightarrow> exn + pyval" where
  "assess_burn_conditions weather_data =
     bind_exn (py_in ''error'' weather_data) (\<lambda>is_error.
       if is_error then
         Inr (PDict [(PStr ''assessment'', PStr ''Unable to assess - weather data unavailable'')])
       else
         try_except (burn_concerns weather_data) (\<lambda>e.
           Inr (PDict [(PStr ''assessment'', PStr (''Unable to assess conditions: '' @ str_exn e))])))"

section \<open>Vegetation tally (\<open>_get_fuel_sources\<close>, lines 213 to 227)\<close>

text \<open>
  \<open>d[k] = v\<close> on a dict in insertion order: the value of an equal key is replaced in
  place (the key first stored stays), a new key goes to the end.
\<close>

fun dict_set :: "(pyval \<times> 'v) list \<Rightarrow> pyval \<Rightarrow> 'v \<Rightarrow> (pyval \<times> 'v) list" where
  "dict_set [] k v = [(k, v)]"
| "dict_set ((k', v') # d) k v =
     (if key_eq k' k then (k', v) # d else (k', v') # dict_set d k v)"

text \<open>
  Line 220: \<open>tally[key] = tally.get(key, 0) + 1\<close>. The tally holds ints only, so its
  values are typed \<open>int\<close>.
\<close>

definition tally_add :: "pyval \<Rightarrow> (pyval \<times> int) list \<Rightarrow> exn + (pyval \<times> int) list" where
  "tally_add k tally =
     (if hashable k
      then Inr (dict_set tally k ((case dict_find tally k of Some c \<Rightarrow> c | None \<Rightarrow> 0) + 1))
      else Inl (Exn TypeError (''unhashable type: '' @ quoted (type_name k))))"

text \<open>Lines 217 and 218: \<open>tags.get('natural') or tags.get('landuse')\<close> of an element.\<close>

definition fuel_tag :: "pyval \<Rightarrow> exn + pyval" where
  "fuel_tag element =
     bind_exn (py_get element ''tags'' (PDict [])) (\<lambda>tags.
     bind_exn (py_get tags ''natural'' PNone) (\<lambda>natural.
       if truthy natural then Inr natural else py_get tags ''landuse'' PNone))"

text \<open>Lines 215 to 220: the loop over the elements.\<close>

fun tally_fuel :: "pyval list \<Rightarrow> (pyval \<times> int) list \<Rightarrow> exn + (pyval \<times> int) list" where
  "tally_fuel [] fuel_types = Inr fuel_types"
| "tally_fuel (element # rest) fuel_types =
     bind_exn (py_getitem element ''type'') (\<lambda>element_type.
       if element_type = PStr ''way'' then
         bind_exn (fuel_tag element) (\<lambda>fuel_type.
           if truthy fuel_type then
             bind_exn (tally_add fuel_type fuel_types) (\<lambda>fuel_types'.
               tally_fuel rest fuel_types')
           else tally_fuel rest fuel_types)
       else tally_fuel rest fuel_types)"

text \<open>Line 225: \<open>[e for e in elements if e['type'] == 'way']\<close>.\<close>

fun ways_only :: "pyval list \<Rightarrow> exn + pyval list" where
  "ways_only [] = Inr []"
| "ways_only (e # es) =
     bind_exn (py_getitem e ''type'') (\<lambda>element_type.
     bind_exn (ways_only es) (\<lambda>ways.
       Inr (if element_type = PStr ''way'' then e # ways else ways)))"

text \<open>
  Line 226: \<open>max(items, key=lambda x: x[1])\<close> keeps the first item whose count is
  maximal: a later item replaces the best so far only when its count is greater.
\<close>

fun max_by_count :: "pyval \<times> int \<Rightarrow> (pyval \<times> int) list \<Rightarrow> pyval \<times> int" where
  "max_by_count best [] = best"
| "max_by_count best (item # items) =
     max_by_count (if snd item > snd best then item else best) items"

definition dominant_fuel :: "(pyval \<times> int) list \<Rightarrow> pyval" where
  "dominant_fuel fuel_types =
     (case fuel_types of [] \<Rightarrow> PStr ''Unknown'' | item # items \<Rightarrow> fst (max_by_count item items))"

text \<open>
  Lines 213 to 227, from the document of the feature service. \<open>data.get('elements', [])\<close>
  is evaluated twice in the source, to the same value.
\<close>

definition fuel_report :: "pyval \<Rightarrow> exn + pyval" where
  "fuel_report data =
     bind_exn (py_get data ''elements'' (PList [])) (\<lambda>elements.
     bind_exn (py_iter elements) (\<lambda>elems.
     bind_exn (tally_fuel elems []) (\<lambda>fuel_types.
     bind_exn (ways_only elems) (\<lambda>ways.
       Inr (PDict [
         (PStr ''source'', PStr ''OpenStreetMap via Overpass API''),
         (PStr ''fuel_types_found'', PDict (map (\<lambda>(k, c). (k, PInt c)) fuel_types)),
         (PStr ''total_areas'', PInt (int (length ways))),
         (PStr ''dominant_fuel'', dominant_fuel fuel_types)])))))"

text \<open>
  The elements the claims speak of: an element of type \<open>way\<close>, and one whose
  \<open>natural\<close> or \<open>landuse\<close> tag is present (true in Python's sense).
\<close>

definition is_way :: "pyval \<Rightarrow> bool" where
  "is_way element = (py_getitem element ''type'' = Inr (PStr ''way''))"


section \<open>Outbound calls\<close>

text \<open>
  The collaborators are the geocoder and the HTTP client. A request is identified by
  what the program puts into its URL: the coordinates, or the URL value itself for the
  two forecast endpoints that the grid-point document names. The world fixes the answer
  to every request; the log records the calls made, in order.
\<close>

datatype request =
    NwsPoints pyval pyval
  | GetUrl pyval
  | ElevationAt pyval pyval
  | ElevationNearby pyval pyval
  | OverpassFuel pyval pyval
  | OverpassWater pyval pyval

datatype call = Geocode pyval | HttpGet request

text \<open>
  A response: what \<open>raise_for_status()\<close> raises, if anything, and what \<open>json()\<close>
  returns or raises.
\<close>

record response =
  status_error :: "exn option"
  json_body :: "exn + pyval"

text \<open>The object \<open>geolocator.geocode\<close> returns when it finds the place.\<close>

record location =
  address :: string
  latitude :: real
  longitude :: real

record world =
  geocoder :: "pyval \<Rightarrow> exn + location option"
  http :: "request \<Rightarrow> exn + response"

text \<open>
  Builtins the model does not define are parameters: \<open>str\<close> of a value that is not
  a string, and the floating-point arithmetic of the terrain sampler, namely
  \<open>max(xs) - min(xs)\<close>, \<open>round(x * 3.28084, 1)\<close> and \<open>round(x, 1)\<close>.
\<close>

record builtins =
  str_of :: "pyval \<Rightarrow> string"
  spread :: "pyval list \<Rightarrow> exn + pyval"
  to_feet :: "pyval \<Rightarrow> exn + pyval"
  round1 :: "pyval \<Rightarrow> exn + pyval"

text \<open>
  A computation with outbound calls takes the log so far and returns its outcome with
  the log extended by its calls.
\<close>

type_synonym 'a io = "call list \<Rightarrow> (exn + 'a) \<times> call list"

definition io_return :: "'a \<Rightarrow> 'a io" where
  "io_return x = (\<lambda>calls. (Inr x, calls))"

definition io_of :: "exn + 'a \<Rightarrow> 'a io" where
  "io_of outcome = (\<lambda>calls. (outcome, calls))"

definition io_bind :: "'a io \<Rightarrow> ('a \<Rightarrow> 'b io) \<Rightarrow> 'b io" where
  "io_bind m f = (\<lambda>calls. case m calls of
      (Inl e, calls') \<Rightarrow> (Inl e, calls')
    | (Inr x, calls') \<Rightarrow> f x calls')"

definition io_try :: "'a io \<Rightarrow> (exn \<Rightarrow> 'a io) \<Rightarrow> 'a io" where
  "io_try body handler = (\<lambda>calls. case body calls of
      (Inl e, calls') \<Rightarrow> handler e calls'
    | (Inr x, calls') \<Rightarrow> (Inr x, calls'))"

definition requests_get :: "world \<Rightarrow> request \<Rightarrow> response io" where
  "requests_get w r = (\<lambda>calls. (http w r, calls @ [HttpGet r]))"

definition geocode :: "world \<Rightarrow> pyval \<Rightarrow> location option io" where
  "geocode w city = (\<lambda>calls. (geocoder w city, calls @ [Geocode city]))"

text \<open>\<open>requests.get(...)\<close>, \<open>raise_for_status()\<close>, \<open>json()\<close>.\<close>

definition get_json :: "world \<Rightarrow> request \<Rightarrow> pyval io" where
  "get_json w r =
     io_bind (requests_get w r) (\<lambda>response.
       io_of (case status_error response of Some e \<Rightarrow> Inl e | None \<Rightarrow> json_body response))"

text \<open>\<open>requests.get(...)\<close> and \<open>json()\<close> with no status check (line 161 and 162).\<close>

definition get_json_unchecked :: "world \<Rightarrow> request \<Rightarrow> pyval io" where
  "get_json_unchecked w r =
     io_bind (requests_get w r) (\<lambda>response. io_of (json_body response))"

section \<open>The lookups\<close>

text \<open>The error variant of a section: \<open>{'error': f"<prefix>{str(e)}"}\<close>.\<close>

definition error_record :: "string \<Rightarrow> exn \<Rightarrow> pyval" where
  "error_record prefix e = PDict [(PStr ''error'', PStr (prefix @ str_exn e))]"

subsection \<open>\<open>_geocode_city\<close>\<close>

definition format_value :: "builtins \<Rightarrow> pyval \<Rightarrow> string" where
  "format_value ops v = (case v of PStr s \<Rightarrow> s | _ \<Rightarrow> str_of ops v)"

definition geocode_city :: "builtins \<Rightarrow> world \<Rightarrow> pyval \<Rightarrow> pyval io" where
  "geocode_city ops w city =
     io_bind (geocode w city) (\<lambda>found.
       case found of
         None \<Rightarrow> io_of (Inl (Exn ValueError (''Could not find location: '' @ format_value ops city)))
       | Some loc \<Rightarrow> io_return (PDict [
           (PStr ''source'', PStr ''Nominatim (OpenStreetMap)''),
           (PStr ''name'', PStr (address loc)),
           (PStr ''latitude'', PFloat (latitude loc)),
           (PStr ''longitude'', PFloat (longitude loc))]))"

subsection \<open>\<open>_get_weather_data\<close>\<close>

definition weather_body :: "world \<Rightarrow> pyval \<Rightarrow> pyval \<Rightarrow> pyval io" where
  "weather_body w lat lon =
     io_bind (get_json w (NwsPoints lat lon)) (\<lambda>points_data.
     io_bind (io_of (bind_exn (py_getitem points_data ''properties'') (\<lambda>properties.
                       py_getitem properties ''forecast''))) (\<lambda>forecast_url.
     io_bind (io_of (bind_exn (py_getitem points_data ''properties'') (\<lambda>properties.
                       py_getitem properties ''forecastHourly''))) (\<lambda>hourly_forecast_url.
     io_bind (get_json w (GetUrl forecast_url)) (\<lambda>forecast_data.
     io_bind (get_json w (GetUrl hourly_forecast_url)) (\<lambda>hourly_data.
       io_of (weather_report forecast_data hourly_data))))))"

definition get_weather_data :: "world \<Rightarrow> pyval \<Rightarrow> pyval \<Rightarrow> pyval io" where
  "get_weather_data w lat lon =
     io_try (weather_body w lat lon)
       (\<lambda>e. io_return (error_record ''Weather data unavailable: '' e))"

subsection \<open>\<open>_get_topography_data\<close>\<close>

text \<open>
  Lines 152 to 157 add the float \<open>offset\<close> to \<open>lat\<close> and then to \<open>lon\<close>: a
  \<open>TypeError\<close> unless both are numbers. (The orchestrator always passes floats.)
\<close>

definition add_offset :: "pyval \<Rightarrow> exn + unit" where
  "add_offset v = (case v of
      PStr s \<Rightarrow> Inl (Exn TypeError
        (''can only concatenate str (not '' @ [CHR 0x22] @ ''float'' @ [CHR 0x22] @ '') to str''))
    | PList xs \<Rightarrow> Inl (Exn TypeError
        (''can only concatenate list (not '' @ [CHR 0x22] @ ''float'' @ [CHR 0x22] @ '') to list''))
    | _ \<Rightarrow> (if num_of v \<noteq> None then Inr ()
           else Inl (Exn TypeError (''unsupported operand type(s) for +: ''
                  @ quoted (type_name v) @ '' and '' @ quoted ''float''))))"

text \<open>Line 164: \<open>[r['elevation'] for r in results]\<close>.\<close>

fun elevations_of :: "pyval list \<Rightarrow> exn + pyval list" where
  "elevations_of [] = Inr []"
| "elevations_of (r # rs) =
     bind_exn (py_getitem r ''elevation'') (\<lambda>elevation.
     bind_exn (elevations_of rs) (\<lambda>elevations.
       Inr (elevation # elevations)))"

definition topography_body :: "builtins \<Rightarrow> world \<Rightarrow> pyval \<Rightarrow> pyval \<Rightarrow> pyval io" where
  "topography_body ops w lat lon =
     io_bind (get_json w (ElevationAt lat lon)) (\<lambda>data.
     io_bind (io_of (bind_exn (py_getitem data ''results'') (\<lambda>results.
                     bind_exn (py_getitem0 results) (\<lambda>result.
                       py_getitem result ''elevation'')))) (\<lambda>elevation.
     io_bind (io_of (bind_exn (add_offset lat) (\<lambda>_. add_offset lon))) (\<lambda>_.
     io_bind (get_json_unchecked w (ElevationNearby lat lon)) (\<lambda>nearby_data.
       io_of (
         bind_exn (py_getitem nearby_data ''results'') (\<lambda>nearby_results.
         bind_exn (py_iter nearby_results) (\<lambda>rs.
         bind_exn (elevations_of rs) (\<lambda>elevations.
         bind_exn (spread ops elevations) (\<lambda>elevation_range.
         bind_exn (to_feet ops elevation) (\<lambda>elevation_feet.
         bind_exn (round1 ops elevation_range) (\<lambda>elevation_range_nearby.
         bind_exn (classify_terrain elevation_range) (\<lambda>terrain_note.
           Inr (PDict [
             (PStr ''source'', PStr ''Open-Elevation API (SRTM 2000)''),
             (PStr ''elevation_meters'', elevation),
             (PStr ''elevation_feet'', elevation_feet),
             (PStr ''elevation_range_nearby'', elevation_range_nearby),
             (PStr ''terrain_note'', PStr terrain_note)])))))))))))))"

definition get_topography_data :: "builtins \<Rightarrow> world \<Rightarrow> pyval \<Rightarrow> pyval \<Rightarrow> pyval io" where
  "get_topography_data ops w lat lon =
     io_try (topography_body ops w lat lon)
       (\<lambda>e. io_return (error_record ''Topography data unavailable: '' e))"

subsection \<open>\<open>_get_fuel_sources\<close>\<close>

definition fuel_body :: "world \<Rightarrow> pyval \<Rightarrow> pyval \<Rightarrow> pyval io" where
  "fuel_body w lat lon =
     io_bind (get_json w (OverpassFuel lat lon)) (\<lambda>data. io_of (fuel_report data))"

definition get_fuel_sources :: "world \<Rightarrow> pyval \<Rightarrow> pyval \<Rightarrow> pyval io" where
  "get_fuel_sources w lat lon =
     io_try (fuel_body w lat lon)
       (\<lambda>e. io_return (error_record ''Fuel source data unavailable: '' e))"

subsection \<open>\<open>_get_water_sources\<close>\<close>

text \<open>
  Lines 263: \<open>tags.get('natural') or tags.get('waterway') or tags.get('landuse')\<close>.
\<close>

definition water_tag :: "pyval \<Rightarrow> exn + pyval" where
  "water_tag tags =
     bind_exn (py_get tags ''natural'' PNone) (\<lambda>natural.
       if truthy natural then Inr natural
       else bind_exn (py_get tags ''waterway'' PNone) (\<lambda>waterway.
         if truthy waterway then Inr waterway
         else py_get tags ''landuse'' PNone))"

text \<open>Lines 257 to 265: the loop, on the tally of water types and the count of hydrants.\<close>

fun tally_water
  :: "pyval list \<Rightarrow> (pyval \<times> int) list \<Rightarrow> int \<Rightarrow> exn + ((pyval \<times> int) list \<times> int)" where
  "tally_water [] water_types hydrants = Inr (water_types, hydrants)"
| "tally_water (element # rest) water_types hydrants =
     bind_exn (py_get element ''tags'' (PDict [])) (\<lambda>tags.
     bind_exn (py_get tags ''emergency'' PNone) (\<lambda>emergency.
       if emergency = PStr ''fire_hydrant'' then tally_water rest water_types (hydrants + 1)
       else
         bind_exn (water_tag tags) (\<lambda>water_type.
           if truthy water_type then
             bind_exn (tally_add water_type water_types) (\<lambda>water_types'.
               tally_water rest water_types' hydrants)
           else tally_water rest water_types hydrants)))"

definition water_report :: "pyval \<Rightarrow> exn + pyval" where
  "water_report data =
     bind_exn (py_get data ''elements'' (PList [])) (\<lambda>elements.
     bind_exn (py_iter elements) (\<lambda>elems.
     bind_exn (tally_water elems [] 0) (\<lambda>(water_types, hydrants).
     bind_exn (py_len elements) (\<lambda>total.
       Inr (PDict [
         (PStr ''source'', PStr ''OpenStreetMap via Overpass API''),
         (PStr ''water_bodies'', PDict (map (\<lambda>(k, c). (k, PInt c)) water_types)),
         (PStr ''fire_hydrants'', PInt hydrants),
         (PStr ''total_water_sources'', PInt (int total))])))))"

definition water_body :: "world \<Rightarrow> pyval \<Rightarrow> pyval \<Rightarrow> pyval io" where
  "water_body w lat lon =
     io_bind (get_json w (OverpassWater lat lon)) (\<lambda>data. io_of (water_report data))"

definition get_water_sources :: "world \<Rightarrow> pyval \<Rightarrow> pyval \<Rightarrow> pyval io" where
  "get_water_sources w lat lon =
     io_try (water_body w lat lon)
       (\<lambda>e. io_return (error_record ''Water source data unavailable: '' e))"

section \<open>The orchestrator (\<open>PrescribedBurnAgent.analyze_location\<close>)\<close>

definition analyze_location :: "builtins \<Rightarrow> world \<Rightarrow> pyval \<Rightarrow> pyval io" where
  "analyze_location ops w city =
     io_bind (geocode_city ops w city) (\<lambda>location_data.
     io_bind (io_of (py_getitem location_data ''latitude'')) (\<lambda>lat.
     io_bind (io_of (py_getitem location_data ''longitude'')) (\<lambda>lon.
     io_bind (get_weather_data w lat lon) (\<lambda>weather_data.
     io_bind (get_topography_data ops w lat lon) (\<lambda>topography_data.
     io_bind (get_fuel_sources w lat lon) (\<lambda>fuel_data.
     io_bind (get_water_sources w lat lon) (\<lambda>water_sources.
     io_bind (io_of (assess_burn_conditions weather_data)) (\<lambda>burn_assessment.
       io_return (PDict [
         (PStr ''location'', location_data),
         (PStr ''weather'', weather_data),
         (PStr ''topography'', topography_data),
         (PStr ''fuel_sources'', fuel_data),
         (PStr ''water_sources'', water_sources),
         (PStr ''burn_assessment'', burn_assessment)])))))))))"

section \<open>The request boundary (\<open>analyze_location\<close> of \<open>app.py\<close>)\<close>

text \<open>
  The view function on the parsed body \<open>request.json\<close>. It returns the body of the
  response (\<open>jsonify\<close> is not modelled) with the status code, 200 when the source
  gives none. An exception outside the \<open>try\<close> block leaves the view function.
\<close>

definition api_analyze :: "builtins \<Rightarrow> world \<Rightarrow> pyval \<Rightarrow> (pyval \<times> nat) io" where
  "api_analyze ops w data =
     io_bind (io_of (py_get data ''city'' (PStr ''''))) (\<lambda>city.
       if \<not> truthy city then
         io_return (PDict [(PStr ''error'', PStr ''City name is required'')], 400)
       else
         io_try
           (io_bind (analyze_location ops w city) (\<lambda>result. io_return (result, 200)))
           (\<lambda>e. io_return (PDict [(PStr ''error'', PStr (str_exn e))], 500)))"

section \<open>Example documents and an example world\<close>

text \<open>
  An upstream forecast period with every field the normaliser reads, a forecast document
  around a list of periods, and the entry the normaliser emits for such a period. The
  closed instances of the theorems below are stated on them.
\<close>

definition example_period :: "string \<Rightarrow> (pyval \<times> pyval) list \<Rightarrow> pyval" where
  "example_period name extra = PDict ([
     (PStr ''name'', PStr name),
     (PStr ''temperature'', PInt 70),
     (PStr ''temperatureUnit'', PStr ''F''),
     (PStr ''windSpeed'', PStr ''5 to 10 mph''),
     (PStr ''windDirection'', PStr ''NW''),
     (PStr ''shortForecast'', PStr ''Sunny''),
     (PStr ''detailedForecast'', PStr ''Sunny, with a high near 70.'')] @ extra)"

definition example_forecast :: "pyval list \<Rightarrow> pyval" where
  "example_forecast periods = PDict [(PStr ''properties'', PDict [(PStr ''periods'', PList periods)])]"

definition example_entry :: "string \<Rightarrow> string \<Rightarrow> pyval \<Rightarrow> pyval" where
  "example_entry name original_name humidity = PDict [
     (PStr ''name'', PStr name),
     (PStr ''original_name'', PStr original_name),
     (PStr ''temperature'', PInt 70),
     (PStr ''temperature_unit'', PStr ''F''),
     (PStr ''wind_speed'', PStr ''5 to 10 mph''),
     (PStr ''wind_direction'', PStr ''NW''),
     (PStr ''humidity'', humidity),
     (PStr ''short_forecast'', PStr ''Sunny''),
     (PStr ''detailed_forecast'', PStr ''Sunny, with a high near 70.'')]"

text \<open>
  A weather report as the normaliser returns it, with one period of the given
  temperature, humidity and wind speed.
\<close>

definition example_current :: "pyval \<Rightarrow> pyval \<Rightarrow> pyval \<Rightarrow> pyval" where
  "example_current temperature humidity wind_speed = PDict [
     (PStr ''name'', PStr ''Today''),
     (PStr ''original_name'', PStr ''This Afternoon''),
     (PStr ''temperature'', temperature),
     (PStr ''temperature_unit'', PStr ''F''),
     (PStr ''wind_speed'', wind_speed),
     (PStr ''wind_direction'', PStr ''NW''),
     (PStr ''humidity'', humidity),
     (PStr ''short_forecast'', PStr ''Sunny''),
     (PStr ''detailed_forecast'', PStr ''Sunny, with a high near 70.'')]"

definition example_weather :: "pyval \<Rightarrow> pyval \<Rightarrow> pyval \<Rightarrow> (pyval \<times> pyval) list" where
  "example_weather temperature humidity wind_speed = [
     (PStr ''source'', PStr ''National Weather Service (NOAA)''),
     (PStr ''forecast'', PList [example_current temperature humidity wind_speed])]"

text \<open>
  A document of the feature service: ways with one tag, nodes without tags, and the
  report the aggregator returns for two grass areas, one wood and two scrub areas.
\<close>

definition example_way :: "string \<Rightarrow> string \<Rightarrow> pyval" where
  "example_way tag fuel = PDict [
     (PStr ''type'', PStr ''way''),
     (PStr ''id'', PInt 1001),
     (PStr ''nodes'', PList [PInt 1, PInt 2, PInt 3]),
     (PStr ''tags'', PDict [(PStr tag, PStr fuel)])]"

definition example_node :: pyval where
  "example_node = PDict [
     (PStr ''type'', PStr ''node''),
     (PStr ''id'', PInt 1),
     (PStr ''lat'', PFloat 38.5),
     (PStr ''lon'', PFloat (-121.7))]"

definition example_features :: "pyval list \<Rightarrow> pyval" where
  "example_features elements = PDict [(PStr ''version'', PFloat 0.6), (PStr ''elements'', PList elements)]"

definition example_fuel_report :: pyval where
  "example_fuel_report = PDict [
     (PStr ''source'', PStr ''OpenStreetMap via Overpass API''),
     (PStr ''fuel_types_found'',
        PDict [(PStr ''grass'', PInt 2), (PStr ''wood'', PInt 1), (PStr ''scrub'', PInt 2)]),
     (PStr ''total_areas'', PInt 5),
     (PStr ''dominant_fuel'', PStr ''grass'')]"

text \<open>
  A world for the closed instances: the geocoder knows one place, the forecast has one
  period and no hourly data, the elevation is 16 m with neighbours between 15 m and
  19 m, the vegetation query times out, and the water query returns a hydrant and a
  water body. The arithmetic parameters hold the values Python computes on these
  elevations: \<open>19 - 15\<close>, \<open>round(16 * 3.28084, 1)\<close> and \<open>round(4, 1)\<close>.
\<close>

definition ok_response :: "pyval \<Rightarrow> exn + response" where
  "ok_response v = Inr \<lparr>status_error = None, json_body = Inr v\<rparr>"

definition example_hydrant :: pyval where
  "example_hydrant = PDict [
     (PStr ''type'', PStr ''node''),
     (PStr ''id'', PInt 7),
     (PStr ''tags'', PDict [(PStr ''emergency'', PStr ''fire_hydrant'')])]"

definition example_world :: world where
  "example_world = \<lparr>
     geocoder = (\<lambda>city.
       if city = PStr ''Davis''
       then Inr (Some \<lparr>address = ''Davis, Yolo County, California, United States'',
                       latitude = 38.5, longitude = -121.7\<rparr>)
       else Inr None),
     http = (\<lambda>r. case r of
         NwsPoints lat lon \<Rightarrow> ok_response (PDict [(PStr ''properties'', PDict [
           (PStr ''forecast'', PStr ''https://api.weather.gov/gridpoints/STO/30,65/forecast''),
           (PStr ''forecastHourly'', PStr ''https://api.weather.gov/gridpoints/STO/30,65/forecast/hourly'')])])
       | GetUrl u \<Rightarrow>
           if u = PStr ''https://api.weather.gov/gridpoints/STO/30,65/forecast''
           then ok_response (example_forecast [example_period ''This Afternoon'' []])
           else ok_response (example_forecast [])
       | ElevationAt lat lon \<Rightarrow> ok_response (PDict [(PStr ''results'', PList [
           PDict [(PStr ''elevation'', PInt 16)]])])
       | ElevationNearby lat lon \<Rightarrow> ok_response (PDict [(PStr ''results'', PList [
           PDict [(PStr ''elevation'', PInt 17)], PDict [(PStr ''elevation'', PInt 15)],
           PDict [(PStr ''elevation'', PInt 19)], PDict [(PStr ''elevation'', PInt 16)]])])
       | OverpassFuel lat lon \<Rightarrow> Inl (Exn RequestError ''Read timed out. (read timeout=30)'')
       | OverpassWater lat lon \<Rightarrow> ok_response (example_features [
           example_hydrant, example_way ''natural'' ''water'']))\<rparr>"

definition example_ops :: builtins where
  "example_ops = \<lparr>
     str_of = (\<lambda>v. ''''),
     spread = (\<lambda>elevations. Inr (PInt 4)),
     to_feet = (\<lambda>elevation. Inr (PFloat 52.5)),
     round1 = (\<lambda>x. Inr x)\<rparr>"

definition example_analysis :: pyval where
  "example_analysis = PDict [
     (PStr ''location'', PDict [
        (PStr ''source'', PStr ''Nominatim (OpenStreetMap)''),
        (PStr ''name'', PStr ''Davis, Yolo County, California, United States''),
        (PStr ''latitude'', PFloat 38.5),
        (PStr ''longitude'', PFloat (-121.7))]),
     (PStr ''weather'', PDict [
        (PStr ''source'', PStr ''National Weather Service (NOAA)''),
        (PStr ''forecast'', PList [example_entry ''Today'' ''This Afternoon'' (PStr ''N/A'')])]),
     (PStr ''topography'', PDict [
        (PStr ''source'', PStr ''Open-Elevation API (SRTM 2000)''),
        (PStr ''elevation_meters'', PInt 16),
        (PStr ''elevation_feet'', PFloat 52.5),
        (PStr ''elevation_range_nearby'', PInt 4),
        (PStr ''terrain_note'', PStr ''Flat terrain'')]),
     (PStr ''fuel_sources'', PDict [
        (PStr ''error'', PStr ''Fuel source data unavailable: Read timed out. (read timeout=30)'')]),
     (PStr ''water_sources'', PDict [
        (PStr ''source'', PStr ''OpenStreetMap via Overpass API''),
        (PStr ''water_bodies'', PDict [(PStr ''water'', PInt 1)]),
        (PStr ''fire_hydrants'', PInt 1),
        (PStr ''total_water_sources'', PInt 2)]),
     (PStr ''burn_assessment'', PDict [
        (PStr ''concerns'', PList [PStr ''Conditions appear moderate'']),
        (PStr ''recommendation'', PStr ''Consult with fire management professionals before proceeding'')])]"

section \<open>Properties\<close>

subsection \<open>Terrain classification\<close>

lemma classify_terrain_number:
  "num_of v = Some r \<Longrightarrow> classify_terrain v =
     Inr (if r < 10 then ''Flat terrain''
          else if r < 50 then ''Gently rolling terrain''
          else if r < 100 then ''Moderately hilly terrain''
          else ''Steep/mountainous terrain'')"
  by (simp add: classify_terrain_def py_lt_def bind_exn_def)

text \<open>
  C3, as stated: an elevation range below 10 yields exactly the label \<open>Flat\<close>. The
  code returns \<open>Flat terrain\<close> for the range 5: the labels of the code all end in
  the word \<open>terrain\<close>.
\<close>

theorem classify_terrain_label_counterexample:
  "classify_terrain (PInt 5) = Inr ''Flat terrain'' \<and> classify_terrain (PInt 5) \<noteq> Inr ''Flat''"
  by (simp add: classify_terrain_def py_lt_def bind_exn_def)

text \<open>
  C3, amended: terrain classification is a step function of the elevation range with
  inclusive lower and exclusive upper boundaries at 10, 50 and 100. For every number
  (an int or a float, compared by value) a range below 10 yields \<open>Flat terrain\<close>, a
  range from 10 and below 50 yields \<open>Gently rolling terrain\<close>, a range from 50 and
  below 100 yields \<open>Moderately hilly terrain\<close>, and a range of 100 or more yields
  \<open>Steep/mountainous terrain\<close>; the function never raises on a number.
\<close>

theorem classify_terrain_steps:
  assumes "num_of elevation_range = Some r"
  shows "(r < 10 \<longrightarrow> classify_terrain elevation_range = Inr ''Flat terrain'')
       \<and> (10 \<le> r \<and> r < 50 \<longrightarrow> classify_terrain elevation_range = Inr ''Gently rolling terrain'')
       \<and> (50 \<le> r \<and> r < 100 \<longrightarrow> classify_terrain elevation_range = Inr ''Moderately hilly terrain'')
       \<and> (100 \<le> r \<longrightarrow> classify_terrain elevation_range = Inr ''Steep/mountainous terrain'')"
  using classify_terrain_number [OF assms] by simp

theorem classify_terrain_steps_witness:
  "classify_terrain (PFloat 9.9) = Inr ''Flat terrain''
   \<and> classify_terrain (PInt 10) = Inr ''Gently rolling terrain''
   \<and> classify_terrain (PFloat 49.9) = Inr ''Gently rolling terrain''
   \<and> classify_terrain (PInt 50) = Inr ''Moderately hilly terrain''
   \<and> classify_terrain (PInt 100) = Inr ''Steep/mountainous terrain''"
proof -
  have a: "num_of (PFloat 9.9) = Some 9.9" by simp
  have b: "num_of (PInt 10) = Some 10" by simp
  have c: "num_of (PFloat 49.9) = Some 49.9" by simp
  have d: "num_of (PInt 50) = Some 50" by simp
  have e: "num_of (PInt 100) = Some 100" by simp
  show ?thesis
    using classify_terrain_steps [OF a] classify_terrain_steps [OF b]
      classify_terrain_steps [OF c] classify_terrain_steps [OF d]
      classify_terrain_steps [OF e]
    by simp
qed

subsection \<open>Sequencing and lookups\<close>

lemma bind_exn_Inr_iff:
  "bind_exn m f = Inr y \<longleftrightarrow> (\<exists>x. m = Inr x \<and> f x = Inr y)"
  by (cases m) (simp_all add: bind_exn_def)

lemma bind_exn_Inl_iff:
  "bind_exn m f = Inl e \<longleftrightarrow> (m = Inl e \<or> (\<exists>x. m = Inr x \<and> f x = Inl e))"
  by (cases m) (simp_all add: bind_exn_def)

lemma bind_exn_simps [simp]:
  "bind_exn (Inl e) f = Inl e"
  "bind_exn (Inr x) f = f x"
  by (simp_all add: bind_exn_def)

lemma key_eq_PStr [simp]: "key_eq (PStr a) (PStr b) \<longleftrightarrow> a = b"
  by (simp add: key_eq_def)

subsection \<open>Substrings\<close>

lemma starts_with_iff: "starts_with s p \<longleftrightarrow> (\<exists>post. s = p @ post)"
  by (induction s p rule: starts_with.induct) auto

lemma str_contains_iff: "str_contains s sub \<longleftrightarrow> (\<exists>pre post. s = pre @ sub @ post)"
proof (induction s)
  case Nil
  then show ?case by auto
next
  case (Cons c cs)
  show ?case
  proof
    assume "str_contains (c # cs) sub"
    then consider "starts_with (c # cs) sub" | "str_contains cs sub" by auto
    then show "\<exists>pre post. c # cs = pre @ sub @ post"
    proof cases
      case 1
      then obtain post where "c # cs = sub @ post" by (auto simp: starts_with_iff)
      then have "c # cs = [] @ sub @ post" by simp
      then show ?thesis by blast
    next
      case 2
      then obtain pre post where "cs = pre @ sub @ post" using Cons.IH by blast
      then have "c # cs = (c # pre) @ sub @ post" by simp
      then show ?thesis by blast
    qed
  next
    assume "\<exists>pre post. c # cs = pre @ sub @ post"
    then obtain pre post where eq: "c # cs = pre @ sub @ post" by blast
    show "str_contains (c # cs) sub"
    proof (cases pre)
      case Nil
      then have "starts_with (c # cs) sub" using eq by (auto simp: starts_with_iff)
      then show ?thesis by simp
    next
      case (Cons d pre')
      then have "cs = pre' @ sub @ post" using eq by simp
      then have "str_contains cs sub" using Cons.IH by blast
      then show ?thesis by simp
    qed
  qed
qed

lemma map_eq_appendD:
  assumes "map f xs = ys @ zs"
  obtains us vs where "xs = us @ vs" and "map f us = ys" and "map f vs = zs"
proof -
  have "xs = take (length ys) xs @ drop (length ys) xs" by simp
  moreover have "map f (take (length ys) xs) = ys"
    using assms by (metis append_eq_conv_conj take_map)
  moreover have "map f (drop (length ys) xs) = zs"
    using assms by (metis append_eq_conv_conj drop_map)
  ultimately show ?thesis using that by blast
qed

lemma contains_night_iff:
  "str_contains (lower s) ''night'' \<longleftrightarrow> (\<exists>pre mid post. s = pre @ mid @ post \<and> lower mid = ''night'')"
proof
  assume "str_contains (lower s) ''night''"
  then obtain pre' post' where "map lower_char s = pre' @ (''night'' @ post')"
    unfolding str_contains_iff lower_def by (elim exE)
  then obtain pre r where s: "s = pre @ r" and r: "map lower_char r = ''night'' @ post'"
    by (rule map_eq_appendD)
  from r obtain mid post where m: "r = mid @ post" and n: "map lower_char mid = ''night''"
    by (rule map_eq_appendD)
  have "s = pre @ mid @ post \<and> lower mid = ''night''"
    using s m n by (simp only: lower_def simp_thms)
  then show "\<exists>pre mid post. s = pre @ mid @ post \<and> lower mid = ''night''"
    by (intro exI)
next
  assume "\<exists>pre mid post. s = pre @ mid @ post \<and> lower mid = ''night''"
  then obtain pre mid post where s: "s = pre @ mid @ post" and n: "lower mid = ''night''"
    by (elim exE conjE)
  have "lower s = lower pre @ lower mid @ lower post"
    unfolding s lower_def by (simp only: map_append)
  then have "lower s = lower pre @ ''night'' @ lower post"
    by (simp only: n)
  then have "\<exists>pre' post'. lower s = pre' @ ''night'' @ post'"
    by (intro exI)
  then show "str_contains (lower s) ''night''"
    by (simp only: str_contains_iff)
qed

subsection \<open>Weather: period names\<close>

lemma normalize_period_Inr:
  assumes "normalize_period hourly_periods i p acc = Inr entry"
  shows "\<exists>original_name name rest.
      py_getitem p ''name'' = Inr original_name
    \<and> normalized_name i original_name acc = Inr name
    \<and> entry = PDict ((PStr ''name'', PStr name) # (PStr ''original_name'', original_name) # rest)"
  using assms unfolding normalize_period_def bind_exn_Inr_iff by blast

lemma entry_name:
  "py_getitem (PDict ((PStr ''name'', v) # rest)) ''name'' = Inr v"
  by simp

lemma entry_original_name:
  "py_getitem (PDict ((PStr ''name'', v) # (PStr ''original_name'', u) # rest)) ''original_name'' = Inr u"
  by simp

lemma retained_periods_length:
  assumes "retained_periods forecast_data = Inr periods"
  shows "length periods \<le> 3"
proof -
  from assms obtain all_periods sl where
    sl: "py_slice all_periods 0 3 = Inr sl" and it: "py_iter sl = Inr periods"
    unfolding retained_periods_def bind_exn_Inr_iff by blast
  show ?thesis
    using sl it by (cases all_periods) auto
qed

lemma retained_periods_list:
  assumes "retained_periods forecast_data = Inr periods"
    and "py_getitem forecast_data ''properties'' = Inr properties"
    and "py_getitem properties ''periods'' = Inr (PList upstream)"
  shows "periods = take 3 upstream"
  using assms by (simp add: retained_periods_def)

lemma length_le_3_cases:
  assumes "length xs \<le> 3"
  obtains "xs = []" | a where "xs = [a]" | a b where "xs = [a, b]" | a b c where "xs = [a, b, c]"
proof (cases xs)
  case Nil then show ?thesis using that by simp
next
  case (Cons a ys)
  note xs = this
  show ?thesis
  proof (cases ys)
    case Nil then show ?thesis using that xs by simp
  next
    case (Cons b zs)
    note ys = this
    show ?thesis
    proof (cases zs)
      case Nil then show ?thesis using that xs ys by simp
    next
      case (Cons c ws)
      then have "ws = []" using assms xs ys by simp
      then show ?thesis using that xs ys Cons by simp
    qed
  qed
qed

lemma normalized_name_first:
  assumes "normalized_name 0 original_name acc = Inr name"
  shows "\<exists>s. original_name = PStr s
     \<and> name = (if str_contains (lower s) ''night'' then ''Tonight'' else ''Today'')"
  using assms by (cases original_name) (auto simp: normalized_name_def split: if_splits)

lemma normalized_name_second:
  assumes "normalized_name (Suc 0) original_name (PDict ((PStr ''name'', PStr n0) # rest) # others) = Inr name"
  shows "name = (if n0 = ''Today'' then ''Tonight'' else ''Tomorrow'')"
  using assms by (auto simp: normalized_name_def list_index_def split: if_splits)

lemma normalized_name_third:
  assumes "normalized_name (Suc (Suc 0)) original_name
             (e0 # PDict ((PStr ''name'', PStr n1) # rest) # others) = Inr name"
  shows "name = (if n1 = ''Tonight'' then ''Tomorrow'' else ''Tomorrow Night'')"
  using assms by (auto simp: normalized_name_def list_index_def split: if_splits)

lemma normalize_loop_three:
  assumes "length periods \<le> 3"
    and "normalize_loop hourly_periods 0 periods [] = Inr out"
  shows "\<exists>names.
      map (\<lambda>entry. py_getitem entry ''name'') out = map (\<lambda>n. Inr (PStr n)) names
    \<and> map (\<lambda>entry. py_getitem entry ''original_name'') out = map (\<lambda>p. py_getitem p ''name'') periods
    \<and> length names = length periods
    \<and> (0 < length names \<longrightarrow> (\<exists>original. py_getitem (periods ! 0) ''name'' = Inr (PStr original)
          \<and> names ! 0 = (if str_contains (lower original) ''night'' then ''Tonight'' else ''Today'')))
    \<and> (1 < length names \<longrightarrow> names ! 1 = (if names ! 0 = ''Today'' then ''Tonight'' else ''Tomorrow''))
    \<and> (2 < length names \<longrightarrow> names ! 2 = (if names ! 1 = ''Tonight'' then ''Tomorrow'' else ''Tomorrow Night''))"
  using assms(1)
proof (cases periods rule: length_le_3_cases)
  case 1
  then have "out = []" using assms(2) by simp
  then show ?thesis using 1 by simp
next
  case (2 a)
  with assms(2) obtain e0 where
    e0: "normalize_period hourly_periods 0 a [] = Inr e0" and out: "out = [e0]"
    by (auto simp: bind_exn_Inr_iff)
  from normalize_period_Inr [OF e0] obtain o0 n0 r0 where
    a: "py_getitem a ''name'' = Inr o0" and n0: "normalized_name 0 o0 [] = Inr n0"
    and d0: "e0 = PDict ((PStr ''name'', PStr n0) # (PStr ''original_name'', o0) # r0)"
    by blast
  from normalized_name_first [OF n0] obtain s where
    s: "o0 = PStr s" "n0 = (if str_contains (lower s) ''night'' then ''Tonight'' else ''Today'')"
    by blast
  show ?thesis
    by (rule exI [of _ "[n0]"]) (simp add: 2 out d0 a s)
next
  case (3 a b)
  with assms(2) obtain e0 e1 where
    e0: "normalize_period hourly_periods 0 a [] = Inr e0"
    and e1: "normalize_period hourly_periods (Suc 0) b [e0] = Inr e1"
    and out: "out = [e0, e1]"
    by (auto simp: bind_exn_Inr_iff)
  from normalize_period_Inr [OF e0] obtain o0 n0 r0 where
    a: "py_getitem a ''name'' = Inr o0" and n0: "normalized_name 0 o0 [] = Inr n0"
    and d0: "e0 = PDict ((PStr ''name'', PStr n0) # (PStr ''original_name'', o0) # r0)"
    by blast
  from normalize_period_Inr [OF e1] obtain o1 n1 r1 where
    b: "py_getitem b ''name'' = Inr o1" and n1: "normalized_name (Suc 0) o1 [e0] = Inr n1"
    and d1: "e1 = PDict ((PStr ''name'', PStr n1) # (PStr ''original_name'', o1) # r1)"
    by blast
  from normalized_name_first [OF n0] obtain s where
    s: "o0 = PStr s" "n0 = (if str_contains (lower s) ''night'' then ''Tonight'' else ''Today'')"
    by blast
  from normalized_name_second [OF n1 [unfolded d0]]
  have n1': "n1 = (if n0 = ''Today'' then ''Tonight'' else ''Tomorrow'')" .
  show ?thesis
    apply (rule exI [of _ "[n0, n1]"])
    using n1' s by (simp add: 3 out d0 d1 a b)
next
  case (4 a b c)
  with assms(2) obtain e0 e1 e2 where
    e0: "normalize_period hourly_periods 0 a [] = Inr e0"
    and e1: "normalize_period hourly_periods (Suc 0) b [e0] = Inr e1"
    and e2: "normalize_period hourly_periods (Suc (Suc 0)) c [e0, e1] = Inr e2"
    and out: "out = [e0, e1, e2]"
    by (auto simp: bind_exn_Inr_iff)
  from normalize_period_Inr [OF e0] obtain o0 n0 r0 where
    a: "py_getitem a ''name'' = Inr o0" and n0: "normalized_name 0 o0 [] = Inr n0"
    and d0: "e0 = PDict ((PStr ''name'', PStr n0) # (PStr ''original_name'', o0) # r0)"
    by blast
  from normalize_period_Inr [OF e1] obtain o1 n1 r1 where
    b: "py_getitem b ''name'' = Inr o1" and n1: "normalized_name (Suc 0) o1 [e0] = Inr n1"
    and d1: "e1 = PDict ((PStr ''name'', PStr n1) # (PStr ''original_name'', o1) # r1)"
    by blast
  from normalize_period_Inr [OF e2] obtain o2 n2 r2 where
    c: "py_getitem c ''name'' = Inr o2" and n2: "normalized_name (Suc (Suc 0)) o2 [e0, e1] = Inr n2"
    and d2: "e2 = PDict ((PStr ''name'', PStr n2) # (PStr ''original_name'', o2) # r2)"
    by blast
  from normalized_name_first [OF n0] obtain s where
    s: "o0 = PStr s" "n0 = (if str_contains (lower s) ''night'' then ''Tonight'' else ''Today'')"
    by blast
  from normalized_name_second [OF n1 [unfolded d0]]
  have n1': "n1 = (if n0 = ''Today'' then ''Tonight'' else ''Tomorrow'')" .
  from normalized_name_third [OF n2 [unfolded d1]]
  have n2': "n2 = (if n1 = ''Tonight'' then ''Tomorrow'' else ''Tomorrow Night'')" .
  show ?thesis
    apply (rule exI [of _ "[n0, n1, n2]"])
    using n1' n2' s by (simp add: 4 out d0 d1 d2 a b c)
qed

lemma length_3_nth:
  assumes "length xs = 3"
  shows "xs = [xs ! 0, xs ! 1, xs ! 2]"
proof -
  from assms obtain x y z where "xs = [x, y, z]"
    by (metis length_0_conv length_Suc_conv numeral_3_eq_3)
  then show ?thesis by simp
qed

lemma alternation:
  assumes "x = (if c then A else B)"
    and "y = (if x = B then A else C)"
    and "z = (if y = A then C else D)"
    and "A \<noteq> B" and "C \<noteq> A"
  shows "[x, y, z] = [B, A, C] \<or> [x, y, z] = [A, C, D]"
  using assms by (cases c) simp_all

lemma example_report:
  "weather_report
     (example_forecast [example_period ''This Afternoon'' [], example_period ''Tonight'' [],
                        example_period ''Friday'' [], example_period ''Friday Night'' []])
     (example_forecast [])
   = Inr (PDict [(PStr ''source'', PStr ''National Weather Service (NOAA)''),
                 (PStr ''forecast'', PList [
                    example_entry ''Today'' ''This Afternoon'' (PStr ''N/A''),
                    example_entry ''Tonight'' ''Tonight'' (PStr ''N/A''),
                    example_entry ''Tomorrow'' ''Friday'' (PStr ''N/A'')])])"
  by (simp add: weather_report_def retained_periods_def example_forecast_def example_period_def
      example_entry_def normalize_period_def normalized_name_def own_humidity_def
      backfill_humidity_def list_index_def lower_def lower_char_def is_upper_def)

text \<open>
  C1: whenever the normaliser produces a report, it has retained at most three periods
  (the first three of the upstream list), in order, and named them by position: period
  0 is \<open>Tonight\<close> if its upstream name contains \<open>night\<close> in any letter case, else
  \<open>Today\<close>; period 1 is \<open>Tonight\<close> if period 0 was named \<open>Today\<close>, else
  \<open>Tomorrow\<close>; period 2 is \<open>Tomorrow\<close> if period 1 was named \<open>Tonight\<close>, else
  \<open>Tomorrow Night\<close>. So three periods are named Today, Tonight, Tomorrow or
  Tonight, Tomorrow, Tomorrow Night.
\<close>

theorem weather_period_names:
  assumes "weather_report forecast_data hourly_data = Inr report"
  shows "\<exists>periods out names.
      retained_periods forecast_data = Inr periods
    \<and> length periods \<le> 3
    \<and> (\<forall>properties upstream.
          py_getitem forecast_data ''properties'' = Inr properties
          \<and> py_getitem properties ''periods'' = Inr (PList upstream)
          \<longrightarrow> periods = take 3 upstream)
    \<and> report = PDict [(PStr ''source'', PStr ''National Weather Service (NOAA)''),
                      (PStr ''forecast'', PList out)]
    \<and> map (\<lambda>entry. py_getitem entry ''name'') out = map (\<lambda>n. Inr (PStr n)) names
    \<and> map (\<lambda>entry. py_getitem entry ''original_name'') out = map (\<lambda>p. py_getitem p ''name'') periods
    \<and> length names = length periods
    \<and> (0 < length names \<longrightarrow> (\<exists>original. py_getitem (periods ! 0) ''name'' = Inr (PStr original)
          \<and> names ! 0 = (if (\<exists>pre mid post. original = pre @ mid @ post \<and> lower mid = ''night'')
                         then ''Tonight'' else ''Today'')))
    \<and> (1 < length names \<longrightarrow> names ! 1 = (if names ! 0 = ''Today'' then ''Tonight'' else ''Tomorrow''))
    \<and> (2 < length names \<longrightarrow> names ! 2 = (if names ! 1 = ''Tonight'' then ''Tomorrow'' else ''Tomorrow Night''))
    \<and> (length names = 3 \<longrightarrow> names = [''Today'', ''Tonight'', ''Tomorrow'']
                              \<or> names = [''Tonight'', ''Tomorrow'', ''Tomorrow Night''])"
proof -
  from assms obtain periods hourly_periods out where
    periods: "retained_periods forecast_data = Inr periods"
    and loop: "normalize_loop hourly_periods 0 periods [] = Inr out"
    and report: "report = PDict [(PStr ''source'', PStr ''National Weather Service (NOAA)''),
                                (PStr ''forecast'', PList out)]"
    by (auto simp: weather_report_def bind_exn_Inr_iff)
  have len: "length periods \<le> 3"
    using periods by (rule retained_periods_length)
  have upstream: "\<forall>properties upstream.
          py_getitem forecast_data ''properties'' = Inr properties
          \<and> py_getitem properties ''periods'' = Inr (PList upstream)
          \<longrightarrow> periods = take 3 upstream"
    using retained_periods_list [OF periods] by blast
  from normalize_loop_three [OF len loop] obtain names where
    nm: "map (\<lambda>entry. py_getitem entry ''name'') out = map (\<lambda>n. Inr (PStr n)) names"
    and on: "map (\<lambda>entry. py_getitem entry ''original_name'') out = map (\<lambda>p. py_getitem p ''name'') periods"
    and ln: "length names = length periods"
    and p0: "0 < length names \<longrightarrow> (\<exists>original. py_getitem (periods ! 0) ''name'' = Inr (PStr original)
          \<and> names ! 0 = (if str_contains (lower original) ''night'' then ''Tonight'' else ''Today''))"
    and p1: "1 < length names \<longrightarrow> names ! 1 = (if names ! 0 = ''Today'' then ''Tonight'' else ''Tomorrow'')"
    and p2: "2 < length names \<longrightarrow> names ! 2 = (if names ! 1 = ''Tonight'' then ''Tomorrow'' else ''Tomorrow Night'')"
    by blast
  have p0': "0 < length names \<longrightarrow> (\<exists>original. py_getitem (periods ! 0) ''name'' = Inr (PStr original)
          \<and> names ! 0 = (if (\<exists>pre mid post. original = pre @ mid @ post \<and> lower mid = ''night'')
                         then ''Tonight'' else ''Today''))"
    using p0 by (simp only: contains_night_iff)
  have three: "length names = 3 \<longrightarrow> names = [''Today'', ''Tonight'', ''Tomorrow'']
                              \<or> names = [''Tonight'', ''Tomorrow'', ''Tomorrow Night'']"
  proof
    assume l3: "length names = 3"
    then have xyz: "names = [names ! 0, names ! 1, names ! 2]"
      by (rule length_3_nth)
    from p0 l3 obtain cond where x: "names ! 0 = (if cond then ''Tonight'' else ''Today'')"
      by auto
    have y: "names ! 1 = (if names ! 0 = ''Today'' then ''Tonight'' else ''Tomorrow'')"
      using p1 l3 by simp
    have z: "names ! 2 = (if names ! 1 = ''Tonight'' then ''Tomorrow'' else ''Tomorrow Night'')"
      using p2 l3 by simp
    have "[names ! 0, names ! 1, names ! 2] = [''Today'', ''Tonight'', ''Tomorrow'']
          \<or> [names ! 0, names ! 1, names ! 2] = [''Tonight'', ''Tomorrow'', ''Tomorrow Night'']"
      using x y z by (rule alternation) simp_all
    with xyz show "names = [''Today'', ''Tonight'', ''Tomorrow'']
          \<or> names = [''Tonight'', ''Tomorrow'', ''Tomorrow Night'']"
      by simp
  qed
  show ?thesis
    apply (rule exI [of _ periods], rule exI [of _ out], rule exI [of _ names])
    apply (intro conjI)
    by (fact periods len upstream report nm on ln p0' p1 p2 three)+
qed


theorem weather_period_names_witness:
  "weather_report
     (example_forecast [example_period ''This Afternoon'' [], example_period ''Tonight'' [],
                        example_period ''Friday'' [], example_period ''Friday Night'' []])
     (example_forecast [])
   = Inr (PDict [(PStr ''source'', PStr ''National Weather Service (NOAA)''),
                 (PStr ''forecast'', PList [
                    example_entry ''Today'' ''This Afternoon'' (PStr ''N/A''),
                    example_entry ''Tonight'' ''Tonight'' (PStr ''N/A''),
                    example_entry ''Tomorrow'' ''Friday'' (PStr ''N/A'')])])
   \<and> (\<exists>names.
         map (\<lambda>entry. py_getitem entry ''name'')
           [example_entry ''Today'' ''This Afternoon'' (PStr ''N/A''),
            example_entry ''Tonight'' ''Tonight'' (PStr ''N/A''),
            example_entry ''Tomorrow'' ''Friday'' (PStr ''N/A'')]
         = map (\<lambda>n. Inr (PStr n)) names
       \<and> length names = 3
       \<and> (names = [''Today'', ''Tonight'', ''Tomorrow'']
            \<or> names = [''Tonight'', ''Tomorrow'', ''Tomorrow Night'']))"
proof -
  let ?fd = "example_forecast [example_period ''This Afternoon'' [], example_period ''Tonight'' [],
                        example_period ''Friday'' [], example_period ''Friday Night'' []]"
  let ?out = "[example_entry ''Today'' ''This Afternoon'' (PStr ''N/A''),
            example_entry ''Tonight'' ''Tonight'' (PStr ''N/A''),
            example_entry ''Tomorrow'' ''Friday'' (PStr ''N/A'')]"
  note h = example_report
  from weather_period_names [OF h] obtain periods out names where
    periods: "retained_periods ?fd = Inr periods"
    and report: "PDict [(PStr ''source'', PStr ''National Weather Service (NOAA)''),
                       (PStr ''forecast'', PList ?out)]
                 = PDict [(PStr ''source'', PStr ''National Weather Service (NOAA)''),
                       (PStr ''forecast'', PList out)]"
    and nm: "map (\<lambda>entry. py_getitem entry ''name'') out = map (\<lambda>n. Inr (PStr n)) names"
    and ln: "length names = length periods"
    and three: "length names = 3 \<longrightarrow> names = [''Today'', ''Tonight'', ''Tomorrow'']
                              \<or> names = [''Tonight'', ''Tomorrow'', ''Tomorrow Night'']"
    by (elim exE conjE)
  have out: "out = ?out" using report by simp
  have "length periods = 3"
    using periods by (auto simp: retained_periods_def example_forecast_def)
  with ln have l3: "length names = 3" by simp
  with three have alt: "names = [''Today'', ''Tonight'', ''Tomorrow'']
                              \<or> names = [''Tonight'', ''Tomorrow'', ''Tomorrow Night'']" by (rule mp)
  have "\<exists>names. map (\<lambda>entry. py_getitem entry ''name'') ?out = map (\<lambda>n. Inr (PStr n)) names
       \<and> length names = 3
       \<and> (names = [''Today'', ''Tonight'', ''Tomorrow'']
            \<or> names = [''Tonight'', ''Tomorrow'', ''Tomorrow Night''])"
    using nm [unfolded out] l3 alt by (intro exI conjI)
  with h show ?thesis by (rule conjI)
qed

subsection \<open>Weather: humidity\<close>

text \<open>
  What lines 99 to 128 do: the period's own field counts when it is true in Python's
  sense (a wrapper dict when it is not empty); the hourly forecast is consulted only when
  that gave \<open>None\<close>, on the four entries from offset \<open>4 * i\<close>; the entry holds
  \<open>N/A\<close> when both gave \<open>None\<close>.
\<close>

lemma own_humidity_flat:
  assumes "dict_find d (PStr ''relativeHumidity'') = Some rh" and "\<not> isinstance_dict rh"
  shows "own_humidity (PDict d) = Inr (if truthy rh then rh else PNone)"
  using assms by (simp add: own_humidity_def)

lemma own_humidity_wrapped:
  assumes "dict_find d (PStr ''relativeHumidity'') = Some (PDict w)"
  shows "own_humidity (PDict d) =
     Inr (if w = [] then PNone else case dict_find w (PStr ''value'') of Some v \<Rightarrow> v | None \<Rightarrow> PNone)"
  using assms by (simp add: own_humidity_def)

lemma own_humidity_missing:
  assumes "dict_find d (PStr ''relativeHumidity'') = None"
  shows "own_humidity (PDict d) = Inr PNone"
  using assms by (simp add: own_humidity_def)

lemma backfill_humidity_own:
  "own \<noteq> PNone \<Longrightarrow> backfill_humidity i hourly_periods own = Inr own"
  by (simp add: backfill_humidity_def)

lemma backfill_humidity_window:
  "backfill_humidity i (PList hourlies) PNone = scan_hourly (take 4 (drop (i * 4) hourlies)) PNone"
  by (cases hourlies) (simp_all add: backfill_humidity_def)

lemma normalize_period_humidity:
  assumes "normalize_period hourly_periods i p acc = Inr entry"
  shows "\<exists>own humidity. own_humidity p = Inr own
     \<and> backfill_humidity i hourly_periods own = Inr humidity
     \<and> py_getitem entry ''humidity'' = Inr (if humidity \<noteq> PNone then humidity else PStr ''N/A'')"
  using assms unfolding normalize_period_def bind_exn_Inr_iff by auto

text \<open>
  C2 says that a period's own relative humidity, a plain number or a wrapper, is used
  verbatim whatever the hourly feed holds, and that \<open>N/A\<close> stands only for a
  humidity that is absent, distinct from 0. The code keeps a wrapped 0 (the tests
  \<open>is None\<close> of lines 108, 118 and 128 tell 0 from \<open>None\<close>), but the truth test of
  line 101 takes a plain 0 for an absent value: the period below carries the plain
  humidity 0, and the report holds the hourly 44 in its place, or \<open>N/A\<close> when the
  hourly forecast is empty.
\<close>

theorem flat_zero_humidity_dropped:
  "own_humidity (example_period ''Today'' [(PStr ''relativeHumidity'', PInt 0)]) = Inr PNone
 \<and> own_humidity (example_period ''Today'' [(PStr ''relativeHumidity'', PDict [(PStr ''value'', PInt 0)])])
     = Inr (PInt 0)
 \<and> weather_report
       (example_forecast [example_period ''Today'' [(PStr ''relativeHumidity'', PInt 0)]])
       (example_forecast [PDict [(PStr ''relativeHumidity'', PDict [(PStr ''value'', PInt 44)])]])
     = Inr (PDict [(PStr ''source'', PStr ''National Weather Service (NOAA)''),
                   (PStr ''forecast'', PList [example_entry ''Today'' ''Today'' (PInt 44)])])
 \<and> weather_report
       (example_forecast [example_period ''Today'' [(PStr ''relativeHumidity'', PInt 0)]])
       (example_forecast [])
     = Inr (PDict [(PStr ''source'', PStr ''National Weather Service (NOAA)''),
                   (PStr ''forecast'', PList [example_entry ''Today'' ''Today'' (PStr ''N/A'')])])"
  by (simp add: weather_report_def retained_periods_def example_forecast_def example_period_def
      example_entry_def normalize_period_def normalized_name_def own_humidity_def
      backfill_humidity_def lower_def lower_char_def is_upper_def)

subsection \<open>Burn assessment\<close>

lemma try_except_simps [simp]:
  "try_except (Inl e) h = h e"
  "try_except (Inr x) h = Inr x"
  by (simp_all add: try_except_def)

lemma humidity_low_eq:
  "humidity_low humidity = Inr (\<exists>h. num_of humidity = Some h \<and> h < 30)"
  by (cases "num_of humidity") (simp_all add: humidity_low_def isinstance_int_float_def py_lt_def)

lemma parse_wind_no_digits:
  assumes "py_split w = token # rest" and "filter isdigit token = []"
  shows "parse_wind (PStr w) = Inl (Exn ValueError (''invalid literal for int() with base 10: '' @ quoted ''''))"
  using assms by (simp add: parse_wind_def py_int_def)

lemma example_weather_lookups:
  "dict_find (example_weather t h w) (PStr ''error'') = None"
  "py_getitem (PDict (example_weather t h w)) ''forecast'' = Inr (PList [example_current t h w])"
  "py_getitem0 (PList [example_current t h w]) = Inr (example_current t h w)"
  "py_getitem (example_current t h w) ''temperature'' = Inr t"
  "py_get (example_current t h w) ''humidity'' (PStr ''N/A'') = Inr h"
  "py_getitem (example_current t h w) ''wind_speed'' = Inr w"
  by (simp_all add: example_weather_def example_current_def)

lemma parse_wind_20: "parse_wind (PStr ''20 mph'') = Inr 20"
  by (simp add: parse_wind_def py_split_def isspace_def isdigit_def is_ascii_digit_def py_int_def digit_val_def)

lemma parse_wind_5: "parse_wind (PStr ''5 mph'') = Inr 5"
  by (simp add: parse_wind_def py_split_def isspace_def isdigit_def is_ascii_digit_def py_int_def digit_val_def)

text \<open>
  C4: on a weather report that is not the error variant, whose first period has a
  numeric temperature and a wind text that parses, the assessor returns the concerns in
  the fixed order high wind (wind value above 15), low humidity (humidity a number, that
  is an int or a float, and below 30), high temperature (temperature above 85), each
  present exactly when its condition holds; when none holds the list is the single
  default concern; the fixed recommendation is attached in both cases.
\<close>

theorem burn_concerns_in_order:
  assumes "dict_find d (PStr ''error'') = None"
    and "py_getitem (PDict d) ''forecast'' = Inr forecast"
    and "py_getitem0 forecast = Inr current"
    and "py_getitem current ''temperature'' = Inr temp"
    and "num_of temp = Some t"
    and "py_get current ''humidity'' (PStr ''N/A'') = Inr humidity"
    and "py_getitem current ''wind_speed'' = Inr wind"
    and "parse_wind wind = Inr wind_value"
  shows "assess_burn_conditions (PDict d) =
     Inr (PDict [
       (PStr ''concerns'', PList (
          if wind_value > 15 \<or> (\<exists>h. num_of humidity = Some h \<and> h < 30) \<or> t > 85
          then (if wind_value > 15 then [PStr ''High wind speeds - increased fire spread risk''] else [])
             @ (if \<exists>h. num_of humidity = Some h \<and> h < 30
                then [PStr ''Low humidity - increased fire intensity risk''] else [])
             @ (if t > 85 then [PStr ''High temperature - increased fire behavior risk''] else [])
          else [PStr ''Conditions appear moderate''])),
       (PStr ''recommendation'', PStr ''Consult with fire management professionals before proceeding'')])"
proof -
  have hot: "py_gt temp 85 = Inr (t > 85)"
    using assms(5) by (simp add: py_gt_def)
  have body: "burn_concerns (PDict d) = Inr (PDict [
       (PStr ''concerns'', PList (
          if wind_value > 15 \<or> (\<exists>h. num_of humidity = Some h \<and> h < 30) \<or> t > 85
          then (if wind_value > 15 then [PStr ''High wind speeds - increased fire spread risk''] else [])
             @ (if \<exists>h. num_of humidity = Some h \<and> h < 30
                then [PStr ''Low humidity - increased fire intensity risk''] else [])
             @ (if t > 85 then [PStr ''High temperature - increased fire behavior risk''] else [])
          else [PStr ''Conditions appear moderate''])),
       (PStr ''recommendation'', PStr ''Consult with fire management professionals before proceeding'')])"
    unfolding burn_concerns_def assms(2,3,4,6,7,8) humidity_low_eq hot bind_exn_simps Let_def
    by simp
  show ?thesis
    unfolding assess_burn_conditions_def using assms(1) body by simp
qed


theorem burn_concerns_in_order_witness:
  "assess_burn_conditions (PDict (example_weather (PInt 90) (PInt 25) (PStr ''20 mph''))) =
     Inr (PDict [
       (PStr ''concerns'', PList [
          PStr ''High wind speeds - increased fire spread risk'',
          PStr ''Low humidity - increased fire intensity risk'',
          PStr ''High temperature - increased fire behavior risk'']),
       (PStr ''recommendation'', PStr ''Consult with fire management professionals before proceeding'')])
 \<and> assess_burn_conditions (PDict (example_weather (PInt 70) (PInt 60) (PStr ''5 mph''))) =
     Inr (PDict [
       (PStr ''concerns'', PList [PStr ''Conditions appear moderate'']),
       (PStr ''recommendation'', PStr ''Consult with fire management professionals before proceeding'')])"
proof -
  have n90: "num_of (PInt 90) = Some 90" and n70: "num_of (PInt 70) = Some 70"
    by simp_all
  have a: "assess_burn_conditions (PDict (example_weather (PInt 90) (PInt 25) (PStr ''20 mph''))) =
     Inr (PDict [
       (PStr ''concerns'', PList [
          PStr ''High wind speeds - increased fire spread risk'',
          PStr ''Low humidity - increased fire intensity risk'',
          PStr ''High temperature - increased fire behavior risk'']),
       (PStr ''recommendation'', PStr ''Consult with fire management professionals before proceeding'')])"
    using burn_concerns_in_order [OF example_weather_lookups(1,2,3,4) n90
        example_weather_lookups(5,6) parse_wind_20]
    by simp
  have b: "assess_burn_conditions (PDict (example_weather (PInt 70) (PInt 60) (PStr ''5 mph''))) =
     Inr (PDict [
       (PStr ''concerns'', PList [PStr ''Conditions appear moderate'']),
       (PStr ''recommendation'', PStr ''Consult with fire management professionals before proceeding'')])"
    using burn_concerns_in_order [OF example_weather_lookups(1,2,3,4) n70
        example_weather_lookups(5,6) parse_wind_5]
    by simp
  from a b show ?thesis by (rule conjI)
qed


text \<open>
  C5: on a dict the assessor never raises. On the error variant it returns the fixed
  assessment; on any other dict on which computing the concerns raises, it returns the
  assessment that carries the message of the exception.
\<close>

theorem assess_never_raises:
  "(dict_find d (PStr ''error'') \<noteq> None \<longrightarrow>
      assess_burn_conditions (PDict d) =
        Inr (PDict [(PStr ''assessment'', PStr ''Unable to assess - weather data unavailable'')]))
 \<and> (dict_find d (PStr ''error'') = None \<longrightarrow>
      (\<forall>e. burn_concerns (PDict d) = Inl e \<longrightarrow>
         assess_burn_conditions (PDict d) =
           Inr (PDict [(PStr ''assessment'', PStr (''Unable to assess conditions: '' @ str_exn e))])))
 \<and> (\<exists>result. assess_burn_conditions (PDict d) = Inr result)"
  by (cases "burn_concerns (PDict d)") (simp_all add: assess_burn_conditions_def)


theorem assess_never_raises_witness:
  "assess_burn_conditions (PDict [(PStr ''error'', PStr ''Weather data unavailable: timed out'')]) =
     Inr (PDict [(PStr ''assessment'', PStr ''Unable to assess - weather data unavailable'')])
 \<and> burn_concerns (PDict (example_weather (PInt 70) (PInt 60) (PStr ''calm''))) =
     Inl (Exn ValueError (''invalid literal for int() with base 10: '' @ quoted ''''))
 \<and> assess_burn_conditions (PDict (example_weather (PInt 70) (PInt 60) (PStr ''calm''))) =
     Inr (PDict [(PStr ''assessment'',
        PStr (''Unable to assess conditions: invalid literal for int() with base 10: '' @ quoted ''''))])"
proof -
  have a: "dict_find [(PStr ''error'', PStr ''Weather data unavailable: timed out'')] (PStr ''error'') \<noteq> None"
    by simp
  have b: "burn_concerns (PDict (example_weather (PInt 70) (PInt 60) (PStr ''calm''))) =
     Inl (Exn ValueError (''invalid literal for int() with base 10: '' @ quoted ''''))"
    by (simp add: burn_concerns_def example_weather_def example_current_def parse_wind_def py_split_def isspace_def
        isdigit_def is_ascii_digit_def py_int_def)
  show ?thesis
    using assess_never_raises [of "[(PStr ''error'', PStr ''Weather data unavailable: timed out'')]"]
      assess_never_raises [of "example_weather (PInt 70) (PInt 60) (PStr ''calm'')"]
      a b example_weather_lookups(1) [of "PInt 70" "PInt 60" "PStr ''calm''"]
    by simp
qed

subsection \<open>Vegetation tally\<close>









lemma ways_only_filter:
  "ways_only elems = Inr ways \<Longrightarrow> ways = filter is_way elems"
proof (induction elems arbitrary: ways)
  case Nil
  then show ?case by simp
next
  case (Cons e es)
  then show ?case by (auto simp: bind_exn_Inr_iff is_way_def)
qed

lemma max_by_count_first:
  "\<exists>pre post. best # items = pre @ max_by_count best items # post
     \<and> (\<forall>x \<in> set pre. snd x < snd (max_by_count best items))
     \<and> (\<forall>x \<in> set post. snd x \<le> snd (max_by_count best items))"
proof (induction items arbitrary: best)
  case Nil
  have "[best] = [] @ max_by_count best [] # []" by simp
  then show ?case by fastforce
next
  case (Cons item items)
  define b where "b = (if snd item > snd best then item else best)"
  define m where "m = max_by_count b items"
  have m: "max_by_count best (item # items) = m" by (simp add: m_def b_def)
  from Cons.IH [of b] obtain pre post where
    split: "b # items = pre @ m # post"
    and before: "\<forall>x \<in> set pre. snd x < snd m"
    and after: "\<forall>x \<in> set post. snd x \<le> snd m"
    unfolding m_def by blast
  have b_le: "snd b \<le> snd m"
  proof (cases pre)
    case Nil
    with split show ?thesis by simp
  next
    case (Cons p ps)
    with split have "p = b" by simp
    with before Cons show ?thesis by simp
  qed
  show ?case
  proof (cases "snd item > snd best")
    case True
    then have bi: "b = item" by (simp add: b_def)
    have "best # item # items = (best # pre) @ m # post"
      using split bi by simp
    moreover have "\<forall>x \<in> set (best # pre). snd x < snd m"
      using before b_le True bi by auto
    ultimately show ?thesis
      unfolding m using after by blast
  next
    case False
    then have bb: "b = best" by (simp add: b_def)
    show ?thesis
    proof (cases pre)
      case Nil
      with split bb have mb: "m = best" and "post = items" by simp_all
      then have "best # item # items = [] @ m # (item # items)"
        and "\<forall>x \<in> set (item # items). snd x \<le> snd m"
        using after False by auto
      then show ?thesis unfolding m by (metis empty_iff list.set(1))
    next
      case (Cons p ps)
      with split bb have p: "p = best" and items: "items = ps @ m # post" by simp_all
      have "best # item # items = (best # item # ps) @ m # post"
        using items by simp
      moreover have "\<forall>x \<in> set (best # item # ps). snd x < snd m"
        using before Cons p False by auto
      ultimately show ?thesis
        unfolding m using after by blast
    qed
  qed
qed

lemma dominant_fuel_first:
  assumes "tally \<noteq> []"
  shows "\<exists>pre k c post. tally = pre @ (k, c) # post
     \<and> dominant_fuel tally = k
     \<and> (\<forall>(k', c') \<in> set tally. c' \<le> c)
     \<and> (\<forall>(k', c') \<in> set pre. c' < c)"
proof -
  from assms obtain item items where tally: "tally = item # items" by (cases tally) auto
  obtain k c where kc: "max_by_count item items = (k, c)" by (cases "max_by_count item items")
  from max_by_count_first [of item items] obtain pre post where
    split: "item # items = pre @ (k, c) # post"
    and before: "\<forall>x \<in> set pre. snd x < c"
    and after: "\<forall>x \<in> set post. snd x \<le> c"
    unfolding kc by auto
  have "dominant_fuel tally = k" by (simp add: dominant_fuel_def tally kc)
  moreover have "\<forall>(k', c') \<in> set tally. c' \<le> c"
    unfolding tally split using before after by fastforce
  moreover have "\<forall>(k', c') \<in> set pre. c' < c"
    using before by auto
  ultimately show ?thesis
    using split tally by blast
qed

lemma fuel_report_Inr:
  assumes "fuel_report data = Inr report"
  shows "\<exists>elems tally.
       bind_exn (py_get data ''elements'' (PList [])) py_iter = Inr elems
     \<and> tally_fuel elems [] = Inr tally
     \<and> report = PDict [
         (PStr ''source'', PStr ''OpenStreetMap via Overpass API''),
         (PStr ''fuel_types_found'', PDict (map (\<lambda>(k, c). (k, PInt c)) tally)),
         (PStr ''total_areas'', PInt (int (length (filter is_way elems)))),
         (PStr ''dominant_fuel'', dominant_fuel tally)]"
proof -
  from assms obtain elements elems tally ways where
    "py_get data ''elements'' (PList []) = Inr elements"
    "py_iter elements = Inr elems"
    "tally_fuel elems [] = Inr tally"
    "ways_only elems = Inr ways"
    "report = PDict [
         (PStr ''source'', PStr ''OpenStreetMap via Overpass API''),
         (PStr ''fuel_types_found'', PDict (map (\<lambda>(k, c). (k, PInt c)) tally)),
         (PStr ''total_areas'', PInt (int (length ways))),
         (PStr ''dominant_fuel'', dominant_fuel tally)]"
    by (auto simp: fuel_report_def bind_exn_Inr_iff)
  then show ?thesis
    using ways_only_filter by (auto simp: bind_exn_Inr_iff)
qed

lemma example_fuel_report_eq:
  "fuel_report (example_features [
      example_way ''landuse'' ''grass'', example_node, example_way ''natural'' ''wood'',
      example_way ''natural'' ''scrub'', example_way ''natural'' ''scrub'',
      example_way ''landuse'' ''grass'', example_node])
   = Inr example_fuel_report"
  by (simp add: fuel_report_def example_features_def example_way_def example_node_def
      example_fuel_report_def fuel_tag_def tally_add_def dominant_fuel_def key_eq_def)

lemma dominant_fuel_tie:
  "dominant_fuel [(PStr ''wood'', 3), (PStr ''grass'', 5), (PStr ''scrub'', 5)] = PStr ''grass''"
  by (simp add: dominant_fuel_def)

text \<open>
  C6: in a report of the aggregator, when the tally is not empty the dominant fuel is a
  tag of the tally whose count is the maximum of all counts, and it is the first such
  tag in the order of the tally (the order in which the tags first occur in the
  response), so the choice among tied tags is a function of the input order; when the
  tally is empty the dominant fuel is \<open>Unknown\<close>.
\<close>

theorem dominant_fuel_is_first_maximum:
  assumes "fuel_report data = Inr report"
  shows "\<exists>tally.
       py_getitem report ''fuel_types_found'' = Inr (PDict (map (\<lambda>(k, c). (k, PInt c)) tally))
     \<and> (tally = [] \<longrightarrow> py_getitem report ''dominant_fuel'' = Inr (PStr ''Unknown''))
     \<and> (tally \<noteq> [] \<longrightarrow> (\<exists>pre k c post. tally = pre @ (k, c) # post
            \<and> py_getitem report ''dominant_fuel'' = Inr k
            \<and> (\<forall>(k', c') \<in> set tally. c' \<le> c)
            \<and> (\<forall>(k', c') \<in> set pre. c' < c)))"
proof -
  from fuel_report_Inr [OF assms] obtain elems tally where
    report: "report = PDict [
         (PStr ''source'', PStr ''OpenStreetMap via Overpass API''),
         (PStr ''fuel_types_found'', PDict (map (\<lambda>(k, c). (k, PInt c)) tally)),
         (PStr ''total_areas'', PInt (int (length (filter is_way elems)))),
         (PStr ''dominant_fuel'', dominant_fuel tally)]"
    by blast
  have found: "py_getitem report ''fuel_types_found'' = Inr (PDict (map (\<lambda>(k, c). (k, PInt c)) tally))"
    and dom: "py_getitem report ''dominant_fuel'' = Inr (dominant_fuel tally)"
    unfolding report by simp_all
  have empty: "tally = [] \<longrightarrow> py_getitem report ''dominant_fuel'' = Inr (PStr ''Unknown'')"
    using dom by (simp add: dominant_fuel_def)
  have nonempty: "tally \<noteq> [] \<longrightarrow> (\<exists>pre k c post. tally = pre @ (k, c) # post
            \<and> py_getitem report ''dominant_fuel'' = Inr k
            \<and> (\<forall>(k', c') \<in> set tally. c' \<le> c)
            \<and> (\<forall>(k', c') \<in> set pre. c' < c))"
    using dominant_fuel_first [of tally] dom by (simp only: simp_thms) blast
  from found empty nonempty show ?thesis by (intro exI conjI)
qed

theorem dominant_fuel_is_first_maximum_witness:
  "fuel_report (example_features [
      example_way ''landuse'' ''grass'', example_node, example_way ''natural'' ''wood'',
      example_way ''natural'' ''scrub'', example_way ''natural'' ''scrub'',
      example_way ''landuse'' ''grass'', example_node])
   = Inr example_fuel_report
 \<and> py_getitem example_fuel_report ''dominant_fuel'' = Inr (PStr ''grass'')
 \<and> (\<exists>tally.
       py_getitem example_fuel_report ''fuel_types_found'' = Inr (PDict (map (\<lambda>(k, c). (k, PInt c)) tally))
     \<and> (\<exists>pre k c post. tally = pre @ (k, c) # post
            \<and> py_getitem example_fuel_report ''dominant_fuel'' = Inr k
            \<and> (\<forall>(k', c') \<in> set tally. c' \<le> c)
            \<and> (\<forall>(k', c') \<in> set pre. c' < c)))"
proof -
  note h = example_fuel_report_eq
  from dominant_fuel_is_first_maximum [OF h] obtain tally where
    found: "py_getitem example_fuel_report ''fuel_types_found'' = Inr (PDict (map (\<lambda>(k, c). (k, PInt c)) tally))"
    and nonempty: "tally \<noteq> [] \<longrightarrow> (\<exists>pre k c post. tally = pre @ (k, c) # post
            \<and> py_getitem example_fuel_report ''dominant_fuel'' = Inr k
            \<and> (\<forall>(k', c') \<in> set tally. c' \<le> c)
            \<and> (\<forall>(k', c') \<in> set pre. c' < c))"
    by (elim exE conjE)
  have "tally \<noteq> []"
    using found by (auto simp: example_fuel_report_def)
  with nonempty have first: "\<exists>pre k c post. tally = pre @ (k, c) # post
            \<and> py_getitem example_fuel_report ''dominant_fuel'' = Inr k
            \<and> (\<forall>(k', c') \<in> set tally. c' \<le> c)
            \<and> (\<forall>(k', c') \<in> set pre. c' < c)" by (rule mp)
  have dom: "py_getitem example_fuel_report ''dominant_fuel'' = Inr (PStr ''grass'')"
    by (simp add: example_fuel_report_def)
  from found first have "py_getitem example_fuel_report ''fuel_types_found'' = Inr (PDict (map (\<lambda>(k, c). (k, PInt c)) tally))
     \<and> (\<exists>pre k c post. tally = pre @ (k, c) # post
            \<and> py_getitem example_fuel_report ''dominant_fuel'' = Inr k
            \<and> (\<forall>(k', c') \<in> set tally. c' \<le> c)
            \<and> (\<forall>(k', c') \<in> set pre. c' < c))"
    by (rule conjI)
  then have "\<exists>tally.
       py_getitem example_fuel_report ''fuel_types_found'' = Inr (PDict (map (\<lambda>(k, c). (k, PInt c)) tally))
     \<and> (\<exists>pre k c post. tally = pre @ (k, c) # post
            \<and> py_getitem example_fuel_report ''dominant_fuel'' = Inr k
            \<and> (\<forall>(k', c') \<in> set tally. c' \<le> c)
            \<and> (\<forall>(k', c') \<in> set pre. c' < c))"
    by - (rule exI)
  with h dom show ?thesis by (intro conjI)
qed




subsection \<open>Outbound calls, the orchestrator and the request boundary\<close>

lemma io_bind_simps [simp]:
  "io_bind (io_return x) f = f x"
  "io_bind (io_of (Inr x)) f = f x"
  "io_bind (io_of (Inl e)) f = io_of (Inl e)"
  by (simp_all add: io_bind_def io_return_def io_of_def fun_eq_iff)

lemma io_bind_apply:
  "io_bind m f calls = (case m calls of (Inl e, calls') \<Rightarrow> (Inl e, calls') | (Inr x, calls') \<Rightarrow> f x calls')"
  by (simp add: io_bind_def)

lemma io_try_apply:
  "io_try m h calls = (case m calls of (Inl e, calls') \<Rightarrow> h e calls' | (Inr x, calls') \<Rightarrow> (Inr x, calls'))"
  by (simp add: io_try_def)

lemma geocode_city_not_found:
  assumes "geocoder w city = Inr None"
  shows "geocode_city ops w city calls =
     (Inl (Exn ValueError (''Could not find location: '' @ format_value ops city)), calls @ [Geocode city])"
  using assms by (simp add: geocode_city_def geocode_def io_bind_apply io_of_def)

lemma geocode_city_found:
  assumes "geocoder w city = Inr (Some loc)"
  shows "geocode_city ops w city calls =
     (Inr (PDict [
           (PStr ''source'', PStr ''Nominatim (OpenStreetMap)''),
           (PStr ''name'', PStr (address loc)),
           (PStr ''latitude'', PFloat (latitude loc)),
           (PStr ''longitude'', PFloat (longitude loc))]), calls @ [Geocode city])"
  using assms by (simp add: geocode_city_def geocode_def io_bind_apply io_return_def)


lemma fst_io_bind:
  "fst (io_bind m f calls) = bind_exn (fst (m calls)) (\<lambda>x. fst (f x (snd (m calls))))"
  by (cases "m calls"; cases "fst (m calls)") (auto simp: io_bind_def)

lemma fst_io_try:
  "fst (io_try m h calls) =
     (case fst (m calls) of Inl e \<Rightarrow> fst (h e (snd (m calls))) | Inr x \<Rightarrow> Inr x)"
  by (cases "m calls"; cases "fst (m calls)") (auto simp: io_try_def)

lemma fst_io_basic [simp]:
  "fst (io_return x calls) = Inr x"
  "fst (io_of outcome calls) = outcome"
  "fst (requests_get w r calls) = http w r"
  "fst (geocode w city calls) = geocoder w city"
  by (simp_all add: io_return_def io_of_def requests_get_def geocode_def)

lemma fst_get_json:
  "fst (get_json w r calls) =
     bind_exn (http w r) (\<lambda>response.
       case status_error response of Some e \<Rightarrow> Inl e | None \<Rightarrow> json_body response)"
  by (simp add: get_json_def fst_io_bind)

lemma fst_get_json_unchecked:
  "fst (get_json_unchecked w r calls) = bind_exn (http w r) json_body"
  by (simp add: get_json_unchecked_def fst_io_bind)

lemma weather_body_outcome:
  "fst (weather_body w lat lon calls) =
     bind_exn (fst (get_json w (NwsPoints lat lon) [])) (\<lambda>points_data.
     bind_exn (bind_exn (py_getitem points_data ''properties'') (\<lambda>properties.
                py_getitem properties ''forecast'')) (\<lambda>forecast_url.
     bind_exn (bind_exn (py_getitem points_data ''properties'') (\<lambda>properties.
                py_getitem properties ''forecastHourly'')) (\<lambda>hourly_forecast_url.
     bind_exn (fst (get_json w (GetUrl forecast_url) [])) (\<lambda>forecast_data.
     bind_exn (fst (get_json w (GetUrl hourly_forecast_url) [])) (\<lambda>hourly_data.
       weather_report forecast_data hourly_data)))))"
  by (simp add: weather_body_def fst_io_bind fst_get_json)

lemma topography_body_outcome:
  "fst (topography_body ops w lat lon calls) = fst (topography_body ops w lat lon [])"
  by (simp add: topography_body_def fst_io_bind fst_get_json fst_get_json_unchecked)

lemma fuel_body_outcome:
  "fst (fuel_body w lat lon calls) = bind_exn (fst (get_json w (OverpassFuel lat lon) [])) fuel_report"
  by (simp add: fuel_body_def fst_io_bind fst_get_json)

lemma water_body_outcome:
  "fst (water_body w lat lon calls) = bind_exn (fst (get_json w (OverpassWater lat lon) [])) water_report"
  by (simp add: water_body_def fst_io_bind fst_get_json)

lemma assess_burn_conditions_total:
  "\<exists>result. assess_burn_conditions (PDict d) = Inr result"
  by (cases "burn_concerns (PDict d)") (simp_all add: assess_burn_conditions_def try_except_def)

lemma weather_report_dict:
  "weather_report forecast_data hourly_data = Inr v \<Longrightarrow> \<exists>d. v = PDict d"
  by (auto simp: weather_report_def bind_exn_Inr_iff)

lemma weather_body_dict:
  assumes "fst (weather_body w lat lon calls) = Inr v"
  shows "\<exists>d. v = PDict d"
proof -
  from assms obtain forecast_data hourly_data where
    "weather_report forecast_data hourly_data = Inr v"
    unfolding weather_body_outcome bind_exn_Inr_iff by blast
  then show ?thesis by (rule weather_report_dict)
qed

lemma fst_get_weather_data:
  "fst (get_weather_data w lat lon calls) =
     Inr (case fst (weather_body w lat lon []) of
            Inl e \<Rightarrow> error_record ''Weather data unavailable: '' e | Inr v \<Rightarrow> v)"
proof -
  have "fst (weather_body w lat lon calls) = fst (weather_body w lat lon [])"
    by (simp only: weather_body_outcome)
  then show ?thesis
    by (cases "fst (weather_body w lat lon [])") (simp_all add: get_weather_data_def fst_io_try)
qed

lemma fst_get_topography_data:
  "fst (get_topography_data ops w lat lon calls) =
     Inr (case fst (topography_body ops w lat lon []) of
            Inl e \<Rightarrow> error_record ''Topography data unavailable: '' e | Inr v \<Rightarrow> v)"
proof -
  have "fst (topography_body ops w lat lon calls) = fst (topography_body ops w lat lon [])"
    by (rule topography_body_outcome)
  then show ?thesis
    by (cases "fst (topography_body ops w lat lon [])") (simp_all add: get_topography_data_def fst_io_try)
qed

lemma fst_get_fuel_sources:
  "fst (get_fuel_sources w lat lon calls) =
     Inr (case fst (fuel_body w lat lon []) of
            Inl e \<Rightarrow> error_record ''Fuel source data unavailable: '' e | Inr v \<Rightarrow> v)"
proof -
  have "fst (fuel_body w lat lon calls) = fst (fuel_body w lat lon [])"
    by (simp only: fuel_body_outcome)
  then show ?thesis
    by (cases "fst (fuel_body w lat lon [])") (simp_all add: get_fuel_sources_def fst_io_try)
qed

lemma fst_get_water_sources:
  "fst (get_water_sources w lat lon calls) =
     Inr (case fst (water_body w lat lon []) of
            Inl e \<Rightarrow> error_record ''Water source data unavailable: '' e | Inr v \<Rightarrow> v)"
proof -
  have "fst (water_body w lat lon calls) = fst (water_body w lat lon [])"
    by (simp only: water_body_outcome)
  then show ?thesis
    by (cases "fst (water_body w lat lon [])") (simp_all add: get_water_sources_def fst_io_try)
qed

lemma weather_body_cong:
  assumes "http w' (NwsPoints lat lon) = http w (NwsPoints lat lon)"
    and "\<forall>u. http w' (GetUrl u) = http w (GetUrl u)"
  shows "fst (weather_body w' lat lon calls') = fst (weather_body w lat lon calls)"
  using assms by (simp add: weather_body_outcome fst_get_json)

lemma topography_body_cong:
  assumes "http w' (ElevationAt lat lon) = http w (ElevationAt lat lon)"
    and "http w' (ElevationNearby lat lon) = http w (ElevationNearby lat lon)"
  shows "fst (topography_body ops w' lat lon calls') = fst (topography_body ops w lat lon calls)"
  using assms by (simp add: topography_body_def fst_io_bind fst_get_json fst_get_json_unchecked)

lemma fuel_body_cong:
  assumes "http w' (OverpassFuel lat lon) = http w (OverpassFuel lat lon)"
  shows "fst (fuel_body w' lat lon calls') = fst (fuel_body w lat lon calls)"
  using assms by (simp add: fuel_body_outcome fst_get_json)

lemma water_body_cong:
  assumes "http w' (OverpassWater lat lon) = http w (OverpassWater lat lon)"
  shows "fst (water_body w' lat lon calls') = fst (water_body w lat lon calls)"
  using assms by (simp add: water_body_outcome fst_get_json)

lemma fst_analyze_location:
  assumes "geocoder w city = Inr (Some loc)"
  shows "fst (analyze_location ops w city calls) =
     bind_exn (fst (get_weather_data w (PFloat (latitude loc)) (PFloat (longitude loc)) [])) (\<lambda>weather.
     bind_exn (fst (get_topography_data ops w (PFloat (latitude loc)) (PFloat (longitude loc)) [])) (\<lambda>topography.
     bind_exn (fst (get_fuel_sources w (PFloat (latitude loc)) (PFloat (longitude loc)) [])) (\<lambda>fuel.
     bind_exn (fst (get_water_sources w (PFloat (latitude loc)) (PFloat (longitude loc)) [])) (\<lambda>water.
     bind_exn (assess_burn_conditions weather) (\<lambda>burn.
       Inr (PDict [
         (PStr ''location'', PDict [
            (PStr ''source'', PStr ''Nominatim (OpenStreetMap)''),
            (PStr ''name'', PStr (address loc)),
            (PStr ''latitude'', PFloat (latitude loc)),
            (PStr ''longitude'', PFloat (longitude loc))]),
         (PStr ''weather'', weather),
         (PStr ''topography'', topography),
         (PStr ''fuel_sources'', fuel),
         (PStr ''water_sources'', water),
         (PStr ''burn_assessment'', burn)]))))))"
proof -
  have g: "geocode_city ops w city calls =
     (Inr (PDict [
           (PStr ''source'', PStr ''Nominatim (OpenStreetMap)''),
           (PStr ''name'', PStr (address loc)),
           (PStr ''latitude'', PFloat (latitude loc)),
           (PStr ''longitude'', PFloat (longitude loc))]), calls @ [Geocode city])"
    using assms by (rule geocode_city_found)
  show ?thesis
    unfolding analyze_location_def
    apply (subst fst_io_bind)
    apply (simp only: g fst_conv snd_conv bind_exn_simps)
    apply (simp add: fst_io_bind fst_get_weather_data fst_get_topography_data
        fst_get_fuel_sources fst_get_water_sources)
    done
qed

lemma example_geocoder:
  "geocoder example_world (PStr ''Davis'') =
     Inr (Some \<lparr>address = ''Davis, Yolo County, California, United States'',
                 latitude = 38.5, longitude = -121.7\<rparr>)"
  "geocoder example_world (PStr ''Atlantis'') = Inr None"
  by (simp_all add: example_world_def)

lemma example_weather_section:
  "fst (weather_body example_world (PFloat 38.5) (PFloat (-121.7)) []) =
     Inr (PDict [
        (PStr ''source'', PStr ''National Weather Service (NOAA)''),
        (PStr ''forecast'', PList [example_entry ''Today'' ''This Afternoon'' (PStr ''N/A'')])])"
  by (simp add: weather_body_outcome fst_get_json example_world_def ok_response_def
      weather_report_def retained_periods_def example_forecast_def example_period_def
      example_entry_def normalize_period_def normalized_name_def own_humidity_def
      backfill_humidity_def lower_def lower_char_def is_upper_def)

lemma example_topography_section:
  "fst (topography_body example_ops example_world (PFloat 38.5) (PFloat (-121.7)) []) =
     Inr (PDict [
        (PStr ''source'', PStr ''Open-Elevation API (SRTM 2000)''),
        (PStr ''elevation_meters'', PInt 16),
        (PStr ''elevation_feet'', PFloat 52.5),
        (PStr ''elevation_range_nearby'', PInt 4),
        (PStr ''terrain_note'', PStr ''Flat terrain'')])"
  by (simp add: topography_body_def fst_io_bind fst_get_json fst_get_json_unchecked
      example_world_def example_ops_def ok_response_def add_offset_def
      classify_terrain_def py_lt_def)

lemma example_fuel_section:
  "fst (fuel_body example_world (PFloat 38.5) (PFloat (-121.7)) []) =
     Inl (Exn RequestError ''Read timed out. (read timeout=30)'')"
  by (simp add: fuel_body_outcome fst_get_json example_world_def)

lemma example_water_section:
  "fst (water_body example_world (PFloat 38.5) (PFloat (-121.7)) []) =
     Inr (PDict [
        (PStr ''source'', PStr ''OpenStreetMap via Overpass API''),
        (PStr ''water_bodies'', PDict [(PStr ''water'', PInt 1)]),
        (PStr ''fire_hydrants'', PInt 1),
        (PStr ''total_water_sources'', PInt 2)])"
  by (simp add: water_body_outcome fst_get_json example_world_def ok_response_def
      water_report_def example_features_def example_hydrant_def example_way_def
      water_tag_def tally_add_def)

lemma example_burn_section:
  "assess_burn_conditions (PDict [
        (PStr ''source'', PStr ''National Weather Service (NOAA)''),
        (PStr ''forecast'', PList [example_entry ''Today'' ''This Afternoon'' (PStr ''N/A'')])]) =
     Inr (PDict [
        (PStr ''concerns'', PList [PStr ''Conditions appear moderate'']),
        (PStr ''recommendation'', PStr ''Consult with fire management professionals before proceeding'')])"
  by (simp add: assess_burn_conditions_def burn_concerns_def example_entry_def parse_wind_def
      py_split_def isspace_def isdigit_def is_ascii_digit_def py_int_def digit_val_def
      humidity_low_def isinstance_int_float_def py_gt_def)


text \<open>
  C7: when geocoding succeeds the orchestrator returns a report with the six top-level
  keys. Each of the four lookup sections is the value its \<open>try\<close> block computed, or,
  when that block raised, the error record whose message is the section's
  \<open>... data unavailable: \<close> prefix followed by the message of the exception. Each
  lookup section is a function of the answers to its own requests alone: in any world
  that answers those requests alike, whatever it answers to the requests of the other
  lookups, the section is the same. The burn assessment is the assessor's value on the
  weather section, and the assessor returns on it.
\<close>

theorem lookup_failures_stay_local:
  assumes "geocoder w city = Inr (Some loc)"
    and "lat = PFloat (latitude loc)" and "lon = PFloat (longitude loc)"
  shows "\<exists>weather topography fuel water burn.
      fst (analyze_location ops w city calls) = Inr (PDict [
         (PStr ''location'', PDict [
            (PStr ''source'', PStr ''Nominatim (OpenStreetMap)''),
            (PStr ''name'', PStr (address loc)),
            (PStr ''latitude'', lat),
            (PStr ''longitude'', lon)]),
         (PStr ''weather'', weather),
         (PStr ''topography'', topography),
         (PStr ''fuel_sources'', fuel),
         (PStr ''water_sources'', water),
         (PStr ''burn_assessment'', burn)])
    \<and> (\<forall>e. fst (weather_body w lat lon []) = Inl e \<longrightarrow>
          weather = PDict [(PStr ''error'', PStr (''Weather data unavailable: '' @ str_exn e))])
    \<and> (\<forall>e. fst (topography_body ops w lat lon []) = Inl e \<longrightarrow>
          topography = PDict [(PStr ''error'', PStr (''Topography data unavailable: '' @ str_exn e))])
    \<and> (\<forall>e. fst (fuel_body w lat lon []) = Inl e \<longrightarrow>
          fuel = PDict [(PStr ''error'', PStr (''Fuel source data unavailable: '' @ str_exn e))])
    \<and> (\<forall>e. fst (water_body w lat lon []) = Inl e \<longrightarrow>
          water = PDict [(PStr ''error'', PStr (''Water source data unavailable: '' @ str_exn e))])
    \<and> (\<forall>v. fst (weather_body w lat lon []) = Inr v \<longrightarrow> weather = v)
    \<and> (\<forall>v. fst (topography_body ops w lat lon []) = Inr v \<longrightarrow> topography = v)
    \<and> (\<forall>v. fst (fuel_body w lat lon []) = Inr v \<longrightarrow> fuel = v)
    \<and> (\<forall>v. fst (water_body w lat lon []) = Inr v \<longrightarrow> water = v)
    \<and> (\<forall>w' calls'. http w' (NwsPoints lat lon) = http w (NwsPoints lat lon)
            \<and> (\<forall>u. http w' (GetUrl u) = http w (GetUrl u))
          \<longrightarrow> fst (get_weather_data w' lat lon calls') = Inr weather)
    \<and> (\<forall>w' calls'. http w' (ElevationAt lat lon) = http w (ElevationAt lat lon)
            \<and> http w' (ElevationNearby lat lon) = http w (ElevationNearby lat lon)
          \<longrightarrow> fst (get_topography_data ops w' lat lon calls') = Inr topography)
    \<and> (\<forall>w' calls'. http w' (OverpassFuel lat lon) = http w (OverpassFuel lat lon)
          \<longrightarrow> fst (get_fuel_sources w' lat lon calls') = Inr fuel)
    \<and> (\<forall>w' calls'. http w' (OverpassWater lat lon) = http w (OverpassWater lat lon)
          \<longrightarrow> fst (get_water_sources w' lat lon calls') = Inr water)
    \<and> assess_burn_conditions weather = Inr burn"
proof -
  define weather where "weather = (case fst (weather_body w lat lon []) of
            Inl e \<Rightarrow> error_record ''Weather data unavailable: '' e | Inr v \<Rightarrow> v)"
  define topography where "topography = (case fst (topography_body ops w lat lon []) of
            Inl e \<Rightarrow> error_record ''Topography data unavailable: '' e | Inr v \<Rightarrow> v)"
  define fuel where "fuel = (case fst (fuel_body w lat lon []) of
            Inl e \<Rightarrow> error_record ''Fuel source data unavailable: '' e | Inr v \<Rightarrow> v)"
  define water where "water = (case fst (water_body w lat lon []) of
            Inl e \<Rightarrow> error_record ''Water source data unavailable: '' e | Inr v \<Rightarrow> v)"
  have "\<exists>d. weather = PDict d"
  proof (cases "fst (weather_body w lat lon [])")
    case (Inl e)
    then show ?thesis by (simp add: weather_def error_record_def)
  next
    case (Inr v)
    with weather_body_dict [OF Inr] show ?thesis by (simp add: weather_def)
  qed
  then obtain burn where burn: "assess_burn_conditions weather = Inr burn"
    using assess_burn_conditions_total by blast
  have gw: "fst (get_weather_data w lat lon []) = Inr weather"
    and gt: "fst (get_topography_data ops w lat lon []) = Inr topography"
    and gf: "fst (get_fuel_sources w lat lon []) = Inr fuel"
    and gwa: "fst (get_water_sources w lat lon []) = Inr water"
    unfolding weather_def topography_def fuel_def water_def
    by (rule fst_get_weather_data fst_get_topography_data fst_get_fuel_sources fst_get_water_sources)+
  have report: "fst (analyze_location ops w city calls) = Inr (PDict [
         (PStr ''location'', PDict [
            (PStr ''source'', PStr ''Nominatim (OpenStreetMap)''),
            (PStr ''name'', PStr (address loc)),
            (PStr ''latitude'', lat),
            (PStr ''longitude'', lon)]),
         (PStr ''weather'', weather),
         (PStr ''topography'', topography),
         (PStr ''fuel_sources'', fuel),
         (PStr ''water_sources'', water),
         (PStr ''burn_assessment'', burn)])"
    unfolding fst_analyze_location [OF assms(1)] assms(2,3) [symmetric] gw gt gf gwa bind_exn_simps burn
    by (rule refl)
  have e1: "\<forall>e. fst (weather_body w lat lon []) = Inl e \<longrightarrow>
          weather = PDict [(PStr ''error'', PStr (''Weather data unavailable: '' @ str_exn e))]"
    and e2: "\<forall>e. fst (topography_body ops w lat lon []) = Inl e \<longrightarrow>
          topography = PDict [(PStr ''error'', PStr (''Topography data unavailable: '' @ str_exn e))]"
    and e3: "\<forall>e. fst (fuel_body w lat lon []) = Inl e \<longrightarrow>
          fuel = PDict [(PStr ''error'', PStr (''Fuel source data unavailable: '' @ str_exn e))]"
    and e4: "\<forall>e. fst (water_body w lat lon []) = Inl e \<longrightarrow>
          water = PDict [(PStr ''error'', PStr (''Water source data unavailable: '' @ str_exn e))]"
    by (simp_all add: weather_def topography_def fuel_def water_def error_record_def)
  have v1: "\<forall>v. fst (weather_body w lat lon []) = Inr v \<longrightarrow> weather = v"
    and v2: "\<forall>v. fst (topography_body ops w lat lon []) = Inr v \<longrightarrow> topography = v"
    and v3: "\<forall>v. fst (fuel_body w lat lon []) = Inr v \<longrightarrow> fuel = v"
    and v4: "\<forall>v. fst (water_body w lat lon []) = Inr v \<longrightarrow> water = v"
    by (simp_all add: weather_def topography_def fuel_def water_def)
  have i1: "\<forall>w' calls'. http w' (NwsPoints lat lon) = http w (NwsPoints lat lon)
            \<and> (\<forall>u. http w' (GetUrl u) = http w (GetUrl u))
          \<longrightarrow> fst (get_weather_data w' lat lon calls') = Inr weather"
  proof (intro allI impI)
    fix w' :: world and calls' :: "call list"
    assume "http w' (NwsPoints lat lon) = http w (NwsPoints lat lon)
            \<and> (\<forall>u. http w' (GetUrl u) = http w (GetUrl u))"
    then have "http w' (NwsPoints lat lon) = http w (NwsPoints lat lon)"
      and "\<forall>u. http w' (GetUrl u) = http w (GetUrl u)" by (rule conjunct1, rule conjunct2)
    then have "fst (weather_body w' lat lon []) = fst (weather_body w lat lon [])"
      by (rule weather_body_cong)
    then show "fst (get_weather_data w' lat lon calls') = Inr weather"
      by (simp only: fst_get_weather_data weather_def)
  qed
  have i2: "\<forall>w' calls'. http w' (ElevationAt lat lon) = http w (ElevationAt lat lon)
            \<and> http w' (ElevationNearby lat lon) = http w (ElevationNearby lat lon)
          \<longrightarrow> fst (get_topography_data ops w' lat lon calls') = Inr topography"
  proof (intro allI impI)
    fix w' :: world and calls' :: "call list"
    assume "http w' (ElevationAt lat lon) = http w (ElevationAt lat lon)
            \<and> http w' (ElevationNearby lat lon) = http w (ElevationNearby lat lon)"
    then have "http w' (ElevationAt lat lon) = http w (ElevationAt lat lon)"
      and "http w' (ElevationNearby lat lon) = http w (ElevationNearby lat lon)"
      by (rule conjunct1, rule conjunct2)
    then have "fst (topography_body ops w' lat lon []) = fst (topography_body ops w lat lon [])"
      by (rule topography_body_cong)
    then show "fst (get_topography_data ops w' lat lon calls') = Inr topography"
      by (simp only: fst_get_topography_data topography_def)
  qed
  have i3: "\<forall>w' calls'. http w' (OverpassFuel lat lon) = http w (OverpassFuel lat lon)
          \<longrightarrow> fst (get_fuel_sources w' lat lon calls') = Inr fuel"
  proof (intro allI impI)
    fix w' :: world and calls' :: "call list"
    assume "http w' (OverpassFuel lat lon) = http w (OverpassFuel lat lon)"
    then have "fst (fuel_body w' lat lon []) = fst (fuel_body w lat lon [])"
      by (rule fuel_body_cong)
    then show "fst (get_fuel_sources w' lat lon calls') = Inr fuel"
      by (simp only: fst_get_fuel_sources fuel_def)
  qed
  have i4: "\<forall>w' calls'. http w' (OverpassWater lat lon) = http w (OverpassWater lat lon)
          \<longrightarrow> fst (get_water_sources w' lat lon calls') = Inr water"
  proof (intro allI impI)
    fix w' :: world and calls' :: "call list"
    assume "http w' (OverpassWater lat lon) = http w (OverpassWater lat lon)"
    then have "fst (water_body w' lat lon []) = fst (water_body w lat lon [])"
      by (rule water_body_cong)
    then show "fst (get_water_sources w' lat lon calls') = Inr water"
      by (simp only: fst_get_water_sources water_def)
  qed
  show ?thesis
    apply (rule exI [of _ weather], rule exI [of _ topography], rule exI [of _ fuel],
        rule exI [of _ water], rule exI [of _ burn])
    apply (intro conjI)
    by (fact report e1 e2 e3 e4 v1 v2 v3 v4 i1 i2 i3 i4 burn)+
qed

theorem lookup_failures_stay_local_witness:
  "geocoder example_world (PStr ''Davis'') =
     Inr (Some \<lparr>address = ''Davis, Yolo County, California, United States'',
                 latitude = 38.5, longitude = -121.7\<rparr>)
 \<and> fst (fuel_body example_world (PFloat 38.5) (PFloat (-121.7)) []) =
     Inl (Exn RequestError ''Read timed out. (read timeout=30)'')
 \<and> fst (analyze_location example_ops example_world (PStr ''Davis'') []) = Inr example_analysis"
proof -
  note h = example_geocoder(1)
  have lat: "PFloat 38.5 = PFloat (latitude \<lparr>address = ''Davis, Yolo County, California, United States'',
                 latitude = 38.5, longitude = -121.7\<rparr>)"
    and lon: "PFloat (-121.7) = PFloat (longitude \<lparr>address = ''Davis, Yolo County, California, United States'',
                 latitude = 38.5, longitude = -121.7\<rparr>)"
    by simp_all
  from lookup_failures_stay_local [OF h lat lon, of example_ops "[]"]
  obtain weather topography fuel water burn where
    report: "fst (analyze_location example_ops example_world (PStr ''Davis'') []) = Inr (PDict [
         (PStr ''location'', PDict [
            (PStr ''source'', PStr ''Nominatim (OpenStreetMap)''),
            (PStr ''name'', PStr (address \<lparr>address = ''Davis, Yolo County, California, United States'',
                 latitude = 38.5, longitude = -121.7\<rparr>)),
            (PStr ''latitude'', PFloat 38.5),
            (PStr ''longitude'', PFloat (-121.7))]),
         (PStr ''weather'', weather),
         (PStr ''topography'', topography),
         (PStr ''fuel_sources'', fuel),
         (PStr ''water_sources'', water),
         (PStr ''burn_assessment'', burn)])"
    and e3: "\<forall>e. fst (fuel_body example_world (PFloat 38.5) (PFloat (-121.7)) []) = Inl e \<longrightarrow>
          fuel = PDict [(PStr ''error'', PStr (''Fuel source data unavailable: '' @ str_exn e))]"
    and v1: "\<forall>v. fst (weather_body example_world (PFloat 38.5) (PFloat (-121.7)) []) = Inr v \<longrightarrow> weather = v"
    and v2: "\<forall>v. fst (topography_body example_ops example_world (PFloat 38.5) (PFloat (-121.7)) []) = Inr v
          \<longrightarrow> topography = v"
    and v4: "\<forall>v. fst (water_body example_world (PFloat 38.5) (PFloat (-121.7)) []) = Inr v \<longrightarrow> water = v"
    and burn: "assess_burn_conditions weather = Inr burn"
    by (elim exE conjE)
  have weather: "weather = PDict [
        (PStr ''source'', PStr ''National Weather Service (NOAA)''),
        (PStr ''forecast'', PList [example_entry ''Today'' ''This Afternoon'' (PStr ''N/A'')])]"
    using v1 example_weather_section by (simp only: simp_thms)
  have topography: "topography = PDict [
        (PStr ''source'', PStr ''Open-Elevation API (SRTM 2000)''),
        (PStr ''elevation_meters'', PInt 16),
        (PStr ''elevation_feet'', PFloat 52.5),
        (PStr ''elevation_range_nearby'', PInt 4),
        (PStr ''terrain_note'', PStr ''Flat terrain'')]"
    using v2 example_topography_section by (simp only: simp_thms)
  have fuel: "fuel = PDict [
        (PStr ''error'', PStr ''Fuel source data unavailable: Read timed out. (read timeout=30)'')]"
    using e3 example_fuel_section by simp
  have water: "water = PDict [
        (PStr ''source'', PStr ''OpenStreetMap via Overpass API''),
        (PStr ''water_bodies'', PDict [(PStr ''water'', PInt 1)]),
        (PStr ''fire_hydrants'', PInt 1),
        (PStr ''total_water_sources'', PInt 2)]"
    using v4 example_water_section by (simp only: simp_thms)
  have burn': "burn = PDict [
        (PStr ''concerns'', PList [PStr ''Conditions appear moderate'']),
        (PStr ''recommendation'', PStr ''Consult with fire management professionals before proceeding'')]"
    using burn unfolding weather example_burn_section by simp
  have "fst (analyze_location example_ops example_world (PStr ''Davis'') []) = Inr example_analysis"
    unfolding report weather topography fuel water burn' example_analysis_def by simp
  with h example_fuel_section show ?thesis by (intro conjI)
qed


text \<open>
  On a request body that is a JSON object whose \<open>city\<close> is missing or empty (not true
  in Python's sense), the endpoint answers 400 with the error \<open>City name is required\<close>
  and the log of outbound calls is unchanged: nothing was called.
\<close>

lemma object_body_without_city_rejected:
  assumes "dict_find d (PStr ''city'') = None \<or> (\<exists>city. dict_find d (PStr ''city'') = Some city \<and> \<not> truthy city)"
  shows "api_analyze ops w (PDict d) calls =
     (Inr (PDict [(PStr ''error'', PStr ''City name is required'')], 400), calls)"
  using assms by (auto simp: api_analyze_def io_return_def)

lemma object_body_without_city_rejected_example:
  "api_analyze example_ops example_world (PDict [(PStr ''city'', PStr [])]) [] =
     (Inr (PDict [(PStr ''error'', PStr ''City name is required'')], 400), [])
 \<and> api_analyze example_ops example_world (PDict []) [] =
     (Inr (PDict [(PStr ''error'', PStr ''City name is required'')], 400), [])"
proof -
  have a: "dict_find [(PStr ''city'', PStr [])] (PStr ''city'') = None
     \<or> (\<exists>city. dict_find [(PStr ''city'', PStr [])] (PStr ''city'') = Some city \<and> \<not> truthy city)"
    by simp
  have b: "dict_find ([] :: (pyval \<times> pyval) list) (PStr ''city'') = None
     \<or> (\<exists>city. dict_find ([] :: (pyval \<times> pyval) list) (PStr ''city'') = Some city \<and> \<not> truthy city)"
    by simp
  from object_body_without_city_rejected [OF a] object_body_without_city_rejected [OF b]
  show ?thesis by (rule conjI)
qed

text \<open>
  C8 says that every request whose place name is empty or missing is answered with the
  client error 400 before any outbound call. The code does so on a JSON object (the
  lemma above), and it makes no outbound call on any such request. But a body that is
  valid JSON and not an object carries no place name either, and there \<open>data.get\<close> of
  line 14 raises \<open>AttributeError\<close> outside the \<open>try\<close> block: the exception leaves the
  view function, which the framework answers with 500, not 400. The bodies below are
  \<open>null\<close>, \<open>[]\<close> and the empty string; the log of calls is unchanged in each case.
\<close>

theorem body_without_object_not_rejected:
  "api_analyze ops w PNone calls =
     (Inl (Exn AttributeError (quoted ''NoneType'' @ '' object has no attribute '' @ quoted ''get'')),
      calls)
 \<and> api_analyze ops w (PList []) calls =
     (Inl (Exn AttributeError (quoted ''list'' @ '' object has no attribute '' @ quoted ''get'')),
      calls)
 \<and> api_analyze ops w (PStr []) calls =
     (Inl (Exn AttributeError (quoted ''str'' @ '' object has no attribute '' @ quoted ''get'')),
      calls)"
  by (simp add: api_analyze_def io_bind_apply io_of_def)

text \<open>
  C9: for a place name that is not empty and that the resolver does not find, the
  geocoder raises \<open>ValueError\<close> with the message \<open>Could not find location: <name>\<close>;
  the orchestrator raises the same exception, having made the geocoding call only (no
  lookup is called, no report is built); the endpoint answers 500 with the message of
  the exception as the error.
\<close>

theorem geocoding_miss_is_server_error:
  assumes "dict_find d (PStr ''city'') = Some (PStr name)" and "name \<noteq> []"
    and "geocoder w (PStr name) = Inr None"
  shows "geocode_city ops w (PStr name) calls =
           (Inl (Exn ValueError (''Could not find location: '' @ name)), calls @ [Geocode (PStr name)])
       \<and> analyze_location ops w (PStr name) calls =
           (Inl (Exn ValueError (''Could not find location: '' @ name)), calls @ [Geocode (PStr name)])
       \<and> api_analyze ops w (PDict d) calls =
           (Inr (PDict [(PStr ''error'', PStr (''Could not find location: '' @ name))], 500),
            calls @ [Geocode (PStr name)])"
proof -
  have g: "geocode_city ops w (PStr name) calls =
           (Inl (Exn ValueError (''Could not find location: '' @ name)), calls @ [Geocode (PStr name)])"
    using geocode_city_not_found [OF assms(3)] by (simp add: format_value_def)
  have a: "analyze_location ops w (PStr name) calls =
           (Inl (Exn ValueError (''Could not find location: '' @ name)), calls @ [Geocode (PStr name)])"
    unfolding analyze_location_def io_bind_apply g by simp
  have "api_analyze ops w (PDict d) calls =
           (Inr (PDict [(PStr ''error'', PStr (''Could not find location: '' @ name))], 500),
            calls @ [Geocode (PStr name)])"
    using assms(1,2) by (simp add: api_analyze_def io_try_apply io_bind_apply a io_return_def)
  with g a show ?thesis by (intro conjI)
qed

theorem geocoding_miss_is_server_error_witness:
  "geocoder example_world (PStr ''Atlantis'') = Inr None
 \<and> analyze_location example_ops example_world (PStr ''Atlantis'') [] =
     (Inl (Exn ValueError ''Could not find location: Atlantis''), [Geocode (PStr ''Atlantis'')])
 \<and> api_analyze example_ops example_world (PDict [(PStr ''city'', PStr ''Atlantis'')]) [] =
     (Inr (PDict [(PStr ''error'', PStr ''Could not find location: Atlantis'')], 500),
      [Geocode (PStr ''Atlantis'')])"
proof -
  have a: "dict_find [(PStr ''city'', PStr ''Atlantis'')] (PStr ''city'') = Some (PStr ''Atlantis'')"
    and b: "''Atlantis'' \<noteq> []"
    by simp_all
  note c = example_geocoder(2)
  from geocoding_miss_is_server_error [OF a b c, of example_ops "[]"] c
  show ?thesis by simp
qed

end
